theory Spec2Isabelle
  imports Complex_Main
begin

section \<open>Python strings\<close>

text \<open>
  A Python \<open>str\<close> is modelled as the list of its code points, one \<open>char\<close> each, which
  covers the texts whose code points lie in U+0000..U+00FF (every letter of the keyword
  tables of \<open>orchestration_service.py\<close> does). \<open>length\<close> therefore counts what
  Python's \<open>len\<close> counts. The three character classes below are Python's
  \<open>str.isspace\<close>, \<open>str.isdigit\<close> and \<open>str.lower\<close> on that range.
\<close>

definition isspace :: "char \<Rightarrow> bool" where
  "isspace c = (let n = (of_char c :: nat) in
     (9 \<le> n \<and> n \<le> 13) \<or> (28 \<le> n \<and> n \<le> 32) \<or> n = 133 \<or> n = 160)"

definition isdigit :: "char \<Rightarrow> bool" where
  "isdigit c = (let n = (of_char c :: nat) in
     (48 \<le> n \<and> n \<le> 57) \<or> n = 178 \<or> n = 179 \<or> n = 185)"

definition lower_char :: "char \<Rightarrow> char" where
  "lower_char c = (let n = (of_char c :: nat) in
     if (65 \<le> n \<and> n \<le> 90) \<or> (192 \<le> n \<and> n \<le> 222 \<and> n \<noteq> 215)
     then char_of (n + 32) else c)"

definition lower :: "string \<Rightarrow> string" where
  "lower s = map lower_char s"

definition strip :: "string \<Rightarrow> string" where
  "strip s = rev (dropWhile isspace (rev (dropWhile isspace s)))"

text \<open>\<open>s.split()\<close>: the maximal runs of non-whitespace characters, in order.\<close>

fun split_from :: "string \<Rightarrow> string \<Rightarrow> string list" where
  "split_from cur [] = (if cur = [] then [] else [rev cur])"
| "split_from cur (c # cs) =
     (if isspace c
      then (if cur = [] then split_from [] cs else rev cur # split_from [] cs)
      else split_from (c # cur) cs)"

definition split :: "string \<Rightarrow> string list" where
  "split s = split_from [] s"

fun startswith :: "string \<Rightarrow> string \<Rightarrow> bool" where
  "startswith s [] = True"
| "startswith [] (k # ks) = False"
| "startswith (c # cs) (k # ks) = (c = k \<and> startswith cs ks)"

text \<open>\<open>k in s\<close> for strings: \<open>k\<close> occurs in \<open>s\<close> as a contiguous run.\<close>

fun contains :: "string \<Rightarrow> string \<Rightarrow> bool" where
  "contains [] k = (k = [])"
| "contains (c # cs) k = (startswith (c # cs) k \<or> contains cs k)"

definition any_in :: "string list \<Rightarrow> string \<Rightarrow> bool" where
  "any_in keywords s = list_ex (\<lambda>keyword. contains s keyword) keywords"

definition digits_of :: "string \<Rightarrow> string" where
  "digits_of s = filter isdigit s"

text \<open>The accented letters of the keyword tables, by code point.\<close>

definition a_tilde :: char where "a_tilde = CHR 0xE3"
definition a_acute :: char where "a_acute = CHR 0xE1"
definition u_acute :: char where "u_acute = CHR 0xFA"

section \<open>The validator\<close>

text \<open>\<open>_validate_answer(answer, step, platform)\<close>: the verdict and the error text.
  Error texts are written in ASCII (accents and emoji left out).\<close>

definition area_keywords :: "string list" where
  "area_keywords = [''penal'', ''saude'', ''sa'' @ [u_acute] @ ''de'', ''criminal'',
                    ''liminar'', ''medic'', ''plano'']"

definition horario_keywords :: "string list" where
  "horario_keywords = [''manh'' @ [a_tilde], ''manha'', ''tarde'', ''noite'',
     ''hor'' @ [a_acute] @ ''rio'', ''horario'', ''h'', '':'', ''qualquer'', ''tanto faz'',
     ''n'' @ [a_tilde] @ ''o me importo'']"

definition confirmation_words :: "string list" where
  "confirmation_words = [''sim'', ''ok'', ''pode'', ''vamos'', ''claro'', ''aceito'', ''concordo'']"

definition validate_answer :: "string \<Rightarrow> string \<Rightarrow> string \<Rightarrow> bool \<times> string" where
  "validate_answer answer step platform =
    (if answer = [] \<or> length (strip answer) < 2
       then (False, ''Por favor, forneca uma resposta valida.'')
     else if step = ''step1_name'' then
       (if length (split answer) < 2
          then (False, ''Por favor, informe seu nome completo (nome e sobrenome).'')
        else (True, []))
     else if step = ''step3_area'' then
       (if \<not> any_in area_keywords (lower answer)
          then (False, ''Por favor, escolha entre Direito Penal ou Direito da Saude.'')
        else (True, []))
     else if step = ''step4_details'' then
       (if length (strip answer) < 15
          then (False, ''Por favor, me conte mais detalhes sobre sua situacao para que possamos ajuda-lo melhor.'')
        else (True, []))
     else if step = ''phone_collection'' then
       (if platform = ''whatsapp'' then
          (if \<not> any_in horario_keywords (lower answer) \<and> \<not> list_ex isdigit answer
             then (False, ''Por favor, me diga qual o melhor horario para contato (manha, tarde ou noite).'')
           else (True, []))
        else
          (let phone_clean = digits_of answer in
           if length phone_clean < 10 \<or> length phone_clean > 13
             then (False, ''Por favor, digite um numero de WhatsApp valido com DDD (ex: 11999999999).'')
           else (True, [])))
     else if step = ''step5_confirmation'' then
       (if \<not> any_in confirmation_words (lower answer)
          then (False, ''Por favor, confirme se podemos prosseguir (responda 'sim' ou 'ok').'')
        else (True, []))
     else (True, []))"

section \<open>Python floats\<close>

text \<open>
  The score is a Python \<open>float\<close> (IEEE binary64) built by repeated \<open>+=\<close>. A double
  \<open>d\<close> is represented by the integer \<open>d * 2^58\<close>: every constant of the scorer and
  every partial sum is a multiple of \<open>2^-58\<close>. \<open>fadd\<close> is the addition of two
  non-negative doubles: the exact sum rounded to 53 significant bits, ties to even.
\<close>

type_synonym pyfloat = int

definition float_val :: "pyfloat \<Rightarrow> real" where
  "float_val k = real_of_int k / 2 ^ 58"

function shift_of :: "int \<Rightarrow> nat" where
  "shift_of k = (if k < 2 ^ 53 then 0 else Suc (shift_of (k div 2)))"
  by pat_completeness auto
termination
  by (relation "measure nat") auto

declare shift_of.simps [simp del]

definition fadd :: "pyfloat \<Rightarrow> pyfloat \<Rightarrow> pyfloat" where
  "fadd x y =
    (let k = x + y; sh = shift_of k in
     if sh = 0 then k
     else (let q = k div 2 ^ sh; r = k mod 2 ^ sh; half = 2 ^ (sh - 1) in
           if r > half \<or> (r = half \<and> odd q) then (q + 1) * 2 ^ sh else q * 2 ^ sh))"

text \<open>The doubles nearest to the decimal literals of the source, times \<open>2^58\<close>.\<close>

definition f_0_03 :: pyfloat where "f_0_03 = 8646911284551352"
definition f_0_04 :: pyfloat where "f_0_04 = 11529215046068470"
definition f_0_08 :: pyfloat where "f_0_08 = 23058430092136940"
definition f_0_10 :: pyfloat where "f_0_10 = 28823037615171176"
definition f_0_15 :: pyfloat where "f_0_15 = 43234556422756760"
definition f_0_25 :: pyfloat where "f_0_25 = 72057594037927936"
definition f_0_7 :: pyfloat where "f_0_7 = 201761263306198208"
definition f_0_8 :: pyfloat where "f_0_8 = 230584300921369408"
definition f_1_0 :: pyfloat where "f_1_0 = 288230376151711744"

section \<open>The qualification scorer\<close>

type_synonym pydict = "(string \<times> string) list"

text \<open>\<open>d.get(k, default)\<close> and the truth value of \<open>d.get(k)\<close> (present and non-empty).\<close>

definition get_or :: "pydict \<Rightarrow> string \<Rightarrow> string \<Rightarrow> string" where
  "get_or d k dflt = (case map_of d k of None \<Rightarrow> dflt | Some v \<Rightarrow> v)"

definition truthy :: "pydict \<Rightarrow> string \<Rightarrow> bool" where
  "truthy d k = (case map_of d k of None \<Rightarrow> False | Some v \<Rightarrow> v \<noteq> [])"

text \<open>\<open>if cond: score += pts\<close>\<close>

definition add_when :: "bool \<Rightarrow> pyfloat \<Rightarrow> pyfloat \<Rightarrow> pyfloat" where
  "add_when cond pts score = (if cond then fadd score pts else score)"

definition high_value_keywords :: "string list" where
  "high_value_keywords = [''penal'', ''saude'', ''sa'' @ [u_acute] @ ''de'', ''criminal'', ''plano'']"

definition calculate_qualification_score :: "pydict \<Rightarrow> string \<Rightarrow> pyfloat" where
  "calculate_qualification_score lead_data platform =
    (let score = 0;
         name = strip (get_or lead_data ''identification'' []);
         score = add_when (length name \<ge> 3) f_0_15 score;
         score = add_when (length (split name) \<ge> 2) f_0_10 score;
         phone = strip (get_or lead_data ''phone'' []);
         score = add_when (phone \<noteq> [] \<and> length phone \<ge> 10) f_0_25 score;
         area = strip (get_or lead_data ''area_qualification'' []);
         score = (if area \<noteq> []
                  then add_when (any_in high_value_keywords (lower area)) f_0_10 (fadd score f_0_15)
                  else score);
         details = strip (get_or lead_data ''case_details'' []);
         score = (if details \<noteq> []
                  then add_when (length details \<ge> 50) f_0_03
                         (add_when (length details \<ge> 20) f_0_04 (fadd score f_0_08))
                  else score);
         confirmation = strip (get_or lead_data ''confirmation'' []);
         score = add_when (confirmation \<noteq> []) f_0_10 score
     in min score f_1_0)"

text \<open>The fully populated lead of the specification's scorer property.\<close>

definition maximal_lead :: "pydict \<Rightarrow> bool" where
  "maximal_lead lead_data =
    (length (strip (get_or lead_data ''identification'' [])) \<ge> 3
     \<and> length (split (strip (get_or lead_data ''identification'' []))) \<ge> 2
     \<and> length (strip (get_or lead_data ''phone'' [])) \<ge> 10
     \<and> any_in high_value_keywords (lower (strip (get_or lead_data ''area_qualification'' [])))
     \<and> length (strip (get_or lead_data ''case_details'' [])) \<ge> 50
     \<and> strip (get_or lead_data ''confirmation'' []) \<noteq> [])"

section \<open>Sessions, collaborators and exceptions\<close>

text \<open>
  A value stored under a dictionary key that the code reads with a default: the key may
  be absent, hold \<open>None\<close>, or hold a string.
\<close>

datatype pyval = Absent | PyNone | Str string

definition val_truthy :: "pyval \<Rightarrow> bool" where
  "val_truthy v = (case v of Str s \<Rightarrow> s \<noteq> [] | _ \<Rightarrow> False)"

definition of_optional :: "string option \<Rightarrow> pyval" where
  "of_optional p = (case p of None \<Rightarrow> PyNone | Some s \<Rightarrow> Str s)"

text \<open>
  The session dictionary. Boolean and counter keys are read with \<open>.get(k, False)\<close> and
  \<open>.get(k, 0)\<close> throughout, so an absent key is its default; \<open>authorization_source\<close> is
  read with default \<open>""\<close>. Timestamps are readings of a logical clock.
\<close>

record session =
  session_id :: string
  platform :: string
  current_step :: string
  lead_data :: pydict
  message_count :: int
  flow_completed :: bool
  phone_submitted :: bool
  lawyers_notified :: bool
  first_interaction :: bool
  whatsapp_authorized :: bool
  authorization_source :: string
  session_ended :: bool
  phone_number :: pyval
  reset_count :: int
  lead_qualified :: bool
  phone_formatted :: string
  created_at :: nat
  last_updated :: nat
  ended_at :: "nat option"
  previous_session_ended_at :: "nat option"
  lawyers_notified_at :: "nat option"

text \<open>
  The collaborators (\<open>firebase_service\<close>, \<open>lawyer_notification_service\<close>,
  \<open>evolution_service\<close>) are external: each call consults the world at the current
  logical time for its outcome and advances the clock. The environment holds the
  durable session store and a log of every call made to the dispatcher, the messaging
  client and the lead store.
\<close>

datatype py_error = IndexError | CollaboratorError

datatype outcome = Succeeds | Fails | Raises

record world =
  outcome_at :: "nat \<Rightarrow> outcome"
  hour_at :: "nat \<Rightarrow> nat"

record dispatch =
  lead_name :: string
  lead_phone :: string
  category :: string
  lead_source :: string

record env =
  store :: "string \<Rightarrow> session option"
  tick :: nat
  dispatches :: "dispatch list"
  sent_messages :: "(string \<times> string) list"
  saved_leads :: "(nat \<times> string \<times> string) list list"

text \<open>
  A computation over a state that either returns or raises; what it did to the state
  before raising stays done, as with a Python exception.
\<close>

type_synonym ('s, 'a) prog = "'s \<Rightarrow> (py_error + 'a) \<times> 's"

definition ret :: "'a \<Rightarrow> ('s, 'a) prog" where
  "ret x s = (Inr x, s)"

definition raise :: "py_error \<Rightarrow> ('s, 'a) prog" where
  "raise e s = (Inl e, s)"

definition then_do :: "('s, 'a) prog \<Rightarrow> ('a \<Rightarrow> ('s, 'b) prog) \<Rightarrow> ('s, 'b) prog" where
  "then_do m f s = (case m s of (Inl e, s') \<Rightarrow> (Inl e, s') | (Inr x, s') \<Rightarrow> f x s')"

definition try_except :: "('s, 'a) prog \<Rightarrow> (py_error \<Rightarrow> ('s, 'a) prog) \<Rightarrow> ('s, 'a) prog" where
  "try_except m h s = (case m s of (Inl e, s') \<Rightarrow> h e s' | (Inr x, s') \<Rightarrow> (Inr x, s'))"

text \<open>Inside a call that holds a session dictionary the state is that dictionary and
  the environment.\<close>

type_synonym pstate = "session \<times> env"

definition on_env :: "(env, 'a) prog \<Rightarrow> (pstate, 'a) prog" where
  "on_env m st = (case m (snd st) of (r, e') \<Rightarrow> (r, (fst st, e')))"

definition in_session :: "session \<Rightarrow> (pstate, 'a) prog \<Rightarrow> (env, 'a) prog" where
  "in_session sd m e = (case m (sd, e) of (r, st') \<Rightarrow> (r, snd st'))"

definition get_session :: "(pstate, session) prog" where
  "get_session st = (Inr (fst st), st)"

definition modify :: "(session \<Rightarrow> session) \<Rightarrow> (pstate, unit) prog" where
  "modify f st = (Inr (), (f (fst st), snd st))"

definition now :: "(env, nat) prog" where
  "now e = (Inr (tick e), e)"

definition advance :: "env \<Rightarrow> env" where
  "advance e = e\<lparr>tick := Suc (tick e)\<rparr>"

definition get_user_session :: "world \<Rightarrow> string \<Rightarrow> (env, session option) prog" where
  "get_user_session w sid e =
    (case outcome_at w (tick e) of
       Raises \<Rightarrow> (Inl CollaboratorError, advance e)
     | _ \<Rightarrow> (Inr (store e sid), advance e))"

definition save_user_session :: "world \<Rightarrow> string \<Rightarrow> session \<Rightarrow> (env, unit) prog" where
  "save_user_session w sid sd e =
    (case outcome_at w (tick e) of
       Raises \<Rightarrow> (Inl CollaboratorError, advance e)
     | Fails \<Rightarrow> (Inr (), advance e)
     | Succeeds \<Rightarrow> (Inr (), advance (e\<lparr>store := (store e)(sid \<mapsto> sd)\<rparr>)))"

text \<open>\<open>save_user_session(session_id, session_data)\<close> on the dictionary in hand.\<close>

definition save_current :: "world \<Rightarrow> string \<Rightarrow> (pstate, unit) prog" where
  "save_current w sid st = on_env (save_user_session w sid (fst st)) st"

definition notify_lawyers_of_new_lead :: "world \<Rightarrow> dispatch \<Rightarrow> (env, bool) prog" where
  "notify_lawyers_of_new_lead w d e =
    (let e' = advance (e\<lparr>dispatches := dispatches e @ [d]\<rparr>) in
     case outcome_at w (tick e) of
       Raises \<Rightarrow> (Inl CollaboratorError, e')
     | Fails \<Rightarrow> (Inr False, e')
     | Succeeds \<Rightarrow> (Inr True, e'))"

definition send_text_message :: "world \<Rightarrow> string \<Rightarrow> string \<Rightarrow> (env, bool) prog" where
  "send_text_message w dest body e =
    (let e' = advance (e\<lparr>sent_messages := sent_messages e @ [(dest, body)]\<rparr>) in
     case outcome_at w (tick e) of
       Raises \<Rightarrow> (Inl CollaboratorError, e')
     | Fails \<Rightarrow> (Inr False, e')
     | Succeeds \<Rightarrow> (Inr True, e'))"

definition save_lead_data :: "world \<Rightarrow> (nat \<times> string \<times> string) list \<Rightarrow> (env, unit) prog" where
  "save_lead_data w answers e =
    (case outcome_at w (tick e) of
       Raises \<Rightarrow> (Inl CollaboratorError, advance e)
     | Fails \<Rightarrow> (Inr (), advance e)
     | Succeeds \<Rightarrow> (Inr (), advance (e\<lparr>saved_leads := saved_leads e @ [answers]\<rparr>)))"

section \<open>The notification gate\<close>

record notify_check =
  should_notify :: bool
  reason :: string
  check_score :: "pyfloat option"
  missing_criteria :: "string list"

definition get_missing_criteria :: "session \<Rightarrow> string \<Rightarrow> string list" where
  "get_missing_criteria sd plat =
    (let ld = lead_data sd in
       (if \<not> truthy ld ''identification'' then [''nome_completo''] else [])
     @ (if \<not> truthy ld ''phone'' then [''telefone''] else [])
     @ (if \<not> truthy ld ''area_qualification'' then [''area_juridica''] else [])
     @ (if plat = ''web'' then
            (if \<not> truthy ld ''case_details'' then [''detalhes_caso''] else [])
          @ (if \<not> truthy ld ''confirmation'' then [''confirmacao''] else [])
          @ (if \<not> flow_completed sd then [''fluxo_incompleto''] else [])
        else if plat = ''whatsapp'' then
            (if message_count sd < 3 then [''engajamento_insuficiente''] else [])
        else []))"

definition should_notify_lawyers :: "session \<Rightarrow> string \<Rightarrow> notify_check" where
  "should_notify_lawyers sd plat =
    (if lawyers_notified sd then
       \<lparr>should_notify = False, reason = ''already_notified'', check_score = None,
        missing_criteria = []\<rparr>
     else
       (let ld = lead_data sd;
            qualification_score = calculate_qualification_score ld plat;
            not_qualified = \<lparr>should_notify = False, reason = ''not_qualified_yet'',
                             check_score = Some qualification_score,
                             missing_criteria = get_missing_criteria sd plat\<rparr>
        in
        if plat = ''web'' then
          (let has_required_fields =
                 list_all (truthy ld) [''identification'', ''area_qualification'',
                                       ''case_details'', ''phone'', ''confirmation''];
               criteria_met =
                 (flow_completed sd \<and> has_required_fields
                  \<and> length (strip (get_or ld ''identification'' [])) \<ge> 3
                  \<and> length (strip (get_or ld ''case_details'' [])) \<ge> 15
                  \<and> length (strip (get_or ld ''phone'' [])) \<ge> 10)
           in if criteria_met \<and> qualification_score \<ge> f_0_8
              then \<lparr>should_notify = True, reason = ''web_flow_completed'',
                    check_score = Some qualification_score, missing_criteria = []\<rparr>
              else not_qualified)
        else if plat = ''whatsapp'' then
          (let has_required_fields =
                 list_all (truthy ld) [''identification'', ''area_qualification'', ''phone''];
               engagement_criteria =
                 (message_count sd \<ge> 3 \<and> has_required_fields
                  \<and> length (strip (get_or ld ''identification'' [])) \<ge> 3
                  \<and> length (strip (get_or ld ''area_qualification'' [])) \<ge> 3
                  \<and> length (strip (get_or ld ''phone'' [])) \<ge> 10);
               advanced_step = (current_step sd \<in> set [''step5_confirmation'', ''completed''])
           in if engagement_criteria \<and> advanced_step \<and> qualification_score \<ge> f_0_7
              then \<lparr>should_notify = True, reason = ''whatsapp_qualified'',
                    check_score = Some qualification_score, missing_criteria = []\<rparr>
              else not_qualified)
        else not_qualified))"

text \<open>
  The gate criteria in the words of the specification, for comparison with the code:
  for WhatsApp, \<open>identification\<close>, \<open>area_qualification\<close> and \<open>phone\<close> non-empty
  "with the same minimum lengths" as for web (identification 3, phone 10).
\<close>

definition spec_gate_criteria :: "session \<Rightarrow> string \<Rightarrow> bool" where
  "spec_gate_criteria sd plat =
    (let ld = lead_data sd; score = calculate_qualification_score ld plat in
     (plat = ''web'' \<and> flow_completed sd
        \<and> truthy ld ''identification'' \<and> truthy ld ''area_qualification''
        \<and> truthy ld ''case_details'' \<and> truthy ld ''phone'' \<and> truthy ld ''confirmation''
        \<and> length (strip (get_or ld ''identification'' [])) \<ge> 3
        \<and> length (strip (get_or ld ''case_details'' [])) \<ge> 15
        \<and> length (strip (get_or ld ''phone'' [])) \<ge> 10
        \<and> score \<ge> f_0_8)
     \<or> (plat = ''whatsapp'' \<and> message_count sd \<ge> 3
        \<and> truthy ld ''identification'' \<and> truthy ld ''area_qualification'' \<and> truthy ld ''phone''
        \<and> length (strip (get_or ld ''identification'' [])) \<ge> 3
        \<and> length (strip (get_or ld ''phone'' [])) \<ge> 10
        \<and> (current_step sd = ''step5_confirmation'' \<or> current_step sd = ''completed'')
        \<and> score \<ge> f_0_7))"

text \<open>The criteria the code applies: the WhatsApp branch also wants three characters of
  trimmed \<open>area_qualification\<close>.\<close>

definition gate_criteria :: "session \<Rightarrow> string \<Rightarrow> bool" where
  "gate_criteria sd plat =
    (let ld = lead_data sd; score = calculate_qualification_score ld plat in
     (plat = ''web'' \<and> flow_completed sd
        \<and> truthy ld ''identification'' \<and> truthy ld ''area_qualification''
        \<and> truthy ld ''case_details'' \<and> truthy ld ''phone'' \<and> truthy ld ''confirmation''
        \<and> length (strip (get_or ld ''identification'' [])) \<ge> 3
        \<and> length (strip (get_or ld ''case_details'' [])) \<ge> 15
        \<and> length (strip (get_or ld ''phone'' [])) \<ge> 10
        \<and> score \<ge> f_0_8)
     \<or> (plat = ''whatsapp'' \<and> message_count sd \<ge> 3
        \<and> truthy ld ''identification'' \<and> truthy ld ''area_qualification'' \<and> truthy ld ''phone''
        \<and> length (strip (get_or ld ''identification'' [])) \<ge> 3
        \<and> length (strip (get_or ld ''area_qualification'' [])) \<ge> 3
        \<and> length (strip (get_or ld ''phone'' [])) \<ge> 10
        \<and> (current_step sd = ''step5_confirmation'' \<or> current_step sd = ''completed'')
        \<and> score \<ge> f_0_7))"

section \<open>Texts and the step table\<close>

text \<open>Response texts are written in ASCII: accents and emoji are left out.\<close>

definition nl :: string where "nl = [CHR 0x0A]"

definition format_brazilian_phone :: "string \<Rightarrow> string" where
  "format_brazilian_phone phone =
    (if phone = [] then []
     else
       (let digits = digits_of phone;
            local = (if startswith digits ''55'' then drop 2 digits else digits)
        in
        if length local = 8 then ''55'' @ local
        else if length local = 9 then ''55'' @ local
        else if length local = 10 then
          (let ddd = take 2 local; number = drop 2 local;
               number = (if length number = 8 \<and> hd number \<in> set ''6789''
                         then ''9'' @ number else number)
           in ''55'' @ ddd @ number)
        else if length local = 11 then ''55'' @ take 2 local @ drop 2 local
        else ''55'' @ local))"

definition get_personalized_greeting :: "nat \<Rightarrow> string" where
  "get_personalized_greeting hour =
    (if 5 \<le> hour \<and> hour < 12 then ''Bom dia''
     else if 12 \<le> hour \<and> hour < 18 then ''Boa tarde''
     else ''Boa noite'')
    @ ''!'' @ nl @ nl @ ''Bem-vindo ao m.lima Advogados Associados.'' @ nl @ nl
    @ ''Para que eu possa direcionar voce ao advogado especialista ideal e acelerar a solucao do seu caso, preciso conhecer um pouco mais sobre sua situacao.''
    @ nl @ nl @ ''Tudo bem?''"

definition get_whatsapp_unauthorized_message :: string where
  "get_whatsapp_unauthorized_message =
    ''Ola!'' @ nl @ nl
    @ ''Para iniciarmos seu atendimento personalizado e direciona-lo ao advogado especialista ideal, precisamos que voce acesse nossa pagina oficial:''
    @ nl @ nl @ ''https://mlima.adv.br'' @ nl @ nl
    @ ''Aguardamos seu contato atraves da nossa pagina oficial!'' @ nl @ nl
    @ ''---'' @ nl @ ''m.lima Advogados Associados'' @ nl
    @ ''Atendimento autorizado apenas via site oficial''"

text \<open>\<open>user_name.split()[0] if user_name else default\<close>: a name of whitespace only is
  truthy and has no first token.\<close>

definition first_name_or :: "string \<Rightarrow> string \<Rightarrow> py_error + string" where
  "first_name_or user_name dflt =
    (if user_name = [] then Inr dflt
     else (case split user_name of [] \<Rightarrow> Inl IndexError | t # ts \<Rightarrow> Inr t))"

definition get_strategic_whatsapp_message :: "string \<Rightarrow> string \<Rightarrow> string \<Rightarrow> py_error + string" where
  "get_strategic_whatsapp_message user_name area phone_fmt =
    (case first_name_or user_name ''Cliente'' of
       Inl e \<Rightarrow> Inl e
     | Inr first_name \<Rightarrow>
        (let area_key =
               (if any_in [''penal'', ''criminal'', ''crime''] (lower area) then ''penal''
                else if any_in [''saude'', ''sa'' @ [u_acute] @ ''de'', ''plano'', ''medic''] (lower area)
                then ''saude'' else ''default'');
             expertise =
               (if area_key = ''penal'' then ''Nossa equipe especializada em Direito Penal ja resolveu centenas de casos similares''
                else if area_key = ''saude'' then ''Nossos advogados especialistas em Direito da Saude tem expertise em acoes contra planos''
                else ''Nossa equipe juridica experiente'');
             urgency =
               (if area_key = ''penal'' then ''Sabemos que situacoes criminais precisam de atencao IMEDIATA''
                else if area_key = ''saude'' then ''Questoes de saude nao podem esperar''
                else ''Sua situacao precisa de atencao especializada'');
             benefit =
               (if area_key = ''penal'' then ''proteger seus direitos e buscar o melhor resultado possivel''
                else if area_key = ''saude'' then ''garantir seu tratamento e obter as coberturas devidas''
                else ''alcancar a solucao mais eficaz para seu caso'')
         in Inr (first_name @ '', uma EXCELENTE noticia!'' @ nl @ nl
                 @ ''Seu atendimento foi PRIORIZADO no sistema m.lima'' @ nl @ nl
                 @ expertise @ '' com resultados comprovados e ja foi IMEDIATAMENTE notificada sobre seu caso.''
                 @ nl @ nl @ urgency
                 @ '' - por isso um advogado experiente entrara em contato com voce nos PROXIMOS MINUTOS.''
                 @ nl @ nl @ ''Voce fez a escolha certa ao confiar no m.lima para '' @ benefit @ ''.''
                 @ nl @ nl @ ''Aguarde nossa ligacao - sua situacao esta em excelentes maos!'')))"

record step_config =
  question :: string
  field :: "string option"
  next_step :: string

definition get_flow_steps :: "nat \<Rightarrow> string \<Rightarrow> (string \<times> step_config) list" where
  "get_flow_steps hour plat =
    (let phone_step_question =
           (if plat = ''whatsapp''
            then ''Obrigado pelos detalhes, {user_name}!'' @ nl @ nl
                 @ ''Para organizarmos o melhor atendimento, qual o melhor horario para nossos advogados entrarem em contato com voce?''
                 @ nl @ nl @ ''Manha (8h-12h)'' @ nl @ ''Tarde (12h-18h)'' @ nl @ ''Noite (18h-20h)''
                 @ nl @ nl @ ''Ou fique a vontade para sugerir um horario especifico!''
            else ''Obrigado pelos detalhes, {user_name}!'' @ nl @ nl
                 @ ''Estamos quase finalizando, preciso do seu WhatsApp com DDD (ex: 11999999999):'');
         phone_step_field = (if plat = ''whatsapp'' then ''preferred_contact_time'' else ''phone'')
     in
     [(''greeting'',
         \<lparr>question = get_personalized_greeting hour, field = None, next_step = ''step1_name''\<rparr>),
      (''step1_name'',
         \<lparr>question = ''Qual e o seu nome completo?'', field = Some ''identification'',
          next_step = ''step3_area''\<rparr>),
      (''step3_area'',
         \<lparr>question = ''Prazer em conhece-lo, {user_name}!'' @ nl @ nl
               @ ''Em qual area do direito voce precisa de nossa ajuda?'' @ nl @ nl
               @ ''Direito Penal (crimes, investigacoes, defesas)'' @ nl
               @ ''Direito da Saude (planos de saude, acoes medicas, liminares)'' @ nl @ nl
               @ ''Qual dessas areas tem a ver com sua situacao?'',
          field = Some ''area_qualification'', next_step = ''step4_details''\<rparr>),
      (''step4_details'',
         \<lparr>question = ''Entendi, {user_name}.'' @ nl @ nl
               @ ''Para nossos advogados ja terem uma visao completa, me conte:'' @ nl @ nl
               @ ''Sua situacao ja esta na justica ou e algo que acabou de acontecer?'' @ nl
               @ ''Tem algum prazo urgente ou audiencia marcada?'' @ nl
               @ ''Em que cidade isso esta ocorrendo?'' @ nl @ nl
               @ ''Fique a vontade para me contar os detalhes!'',
          field = Some ''case_details'', next_step = ''phone_collection''\<rparr>),
      (''phone_collection'',
         \<lparr>question = phone_step_question, field = Some phone_step_field,
          next_step = ''step5_confirmation''\<rparr>),
      (''step5_confirmation'',
         \<lparr>question = ''Perfeito, {user_name}!'' @ nl @ nl
               @ ''Vou registrar todas essas informacoes para que o advogado responsavel ja entenda completamente seu caso e possa te ajudar com agilidade.''
               @ nl @ nl
               @ ''Em alguns minutos voce estara falando diretamente com um especialista. Podemos prosseguir?'',
          field = Some ''confirmation'', next_step = ''completed''\<rparr>)])"

text \<open>\<open>flow_steps[k]["question"]\<close> for the keys the code reads by name.\<close>

definition question_of :: "(string \<times> step_config) list \<Rightarrow> string \<Rightarrow> string" where
  "question_of steps k = (case map_of steps k of None \<Rightarrow> [] | Some c \<Rightarrow> question c)"

text \<open>\<open>s.replace(old, new)\<close> for a non-empty \<open>old\<close>: leftmost occurrences, not overlapping.\<close>

function replace :: "string \<Rightarrow> string \<Rightarrow> string \<Rightarrow> string" where
  "replace s old new =
    (if s = [] then []
     else if old \<noteq> [] \<and> startswith s old then new @ replace (drop (length old) s) old new
     else hd s # replace (tl s) old new)"
  by pat_completeness auto
termination
  by (relation "measure (\<lambda>(s, old, new). length s)") auto

declare replace.simps [simp del]

definition interpolate_message :: "string \<Rightarrow> pydict \<Rightarrow> string" where
  "interpolate_message message ld =
    (if message = [] then ''Como posso ajuda-lo?''
     else
       (let user_name = get_or ld ''identification'' [];
            area = get_or ld ''area_qualification'' [];
            fill_area = (\<lambda>m. if area \<noteq> [] \<and> contains m ''{area}''
                              then replace m ''{area}'' area else m)
        in
        if user_name \<noteq> [] \<and> contains message ''{user_name}'' then
          (case split user_name of
             [] \<Rightarrow> message
           | first_name # rest \<Rightarrow> fill_area (replace message ''{user_name}'' first_name))
        else fill_area message))"

section \<open>Session retrieval and the two notification paths\<close>

fun dict_set :: "pydict \<Rightarrow> string \<Rightarrow> string \<Rightarrow> pydict" where
  "dict_set [] k v = [(k, v)]"
| "dict_set ((k', v') # d) k v = (if k' = k then (k, v) # d else (k', v') # dict_set d k v)"

definition fresh_session :: "string \<Rightarrow> string \<Rightarrow> nat \<Rightarrow> session" where
  "fresh_session sid plat t =
    \<lparr>session_id = sid, platform = plat, current_step = ''greeting'', lead_data = [],
     message_count = 0, flow_completed = False, phone_submitted = False,
     lawyers_notified = False, first_interaction = True, whatsapp_authorized = False,
     authorization_source = [], session_ended = False, phone_number = Absent,
     reset_count = 0, lead_qualified = False, phone_formatted = [], created_at = t,
     last_updated = t, ended_at = None, previous_session_ended_at = None,
     lawyers_notified_at = None\<rparr>"

definition reset_session :: "session \<Rightarrow> string \<Rightarrow> string \<Rightarrow> string option \<Rightarrow> nat \<Rightarrow> session" where
  "reset_session old sid plat phone t =
    (let whatsapp_auth = whatsapp_authorized old;
         auth_source = authorization_source old;
         old_phone = (case phone_number old of Absent \<Rightarrow> of_optional phone | v \<Rightarrow> v)
     in
     \<lparr>session_id = sid, platform = plat, current_step = ''greeting'', lead_data = [],
      message_count = 0, flow_completed = False, phone_submitted = False,
      lawyers_notified = False, first_interaction = True,
      whatsapp_authorized = (if plat = ''whatsapp'' then whatsapp_auth else False),
      authorization_source = auth_source, session_ended = False,
      phone_number = (if plat = ''whatsapp'' then old_phone else of_optional phone),
      reset_count = reset_count old + 1, lead_qualified = False, phone_formatted = [],
      created_at = t, last_updated = t, ended_at = None,
      previous_session_ended_at = ended_at old, lawyers_notified_at = None\<rparr>)"

text \<open>\<open>if phone_number: session_data["phone_number"] = phone_number\<close>\<close>

definition set_phone :: "string option \<Rightarrow> session \<Rightarrow> session" where
  "set_phone phone sd =
    (case phone of None \<Rightarrow> sd
     | Some p \<Rightarrow> if p \<noteq> [] then sd\<lparr>phone_number := Str p\<rparr> else sd)"

definition get_or_create_session ::
  "world \<Rightarrow> string \<Rightarrow> string \<Rightarrow> string option \<Rightarrow> (env, session) prog" where
  "get_or_create_session w sid plat phone =
    then_do (get_user_session w sid) (\<lambda>found.
      case found of
        Some old \<Rightarrow>
          if session_ended old \<or> flow_completed old then
            then_do now (\<lambda>t.
              let sd = reset_session old sid plat phone t in
              then_do (save_user_session w sid sd) (\<lambda>_. ret sd))
          else ret (set_phone phone old)
      | None \<Rightarrow>
          then_do now (\<lambda>t.
            let sd = fresh_session sid plat t in
            then_do (save_user_session w sid sd) (\<lambda>_. ret (set_phone phone sd))))"

record notify_result =
  notified :: bool
  success :: "bool option"
  result_reason :: string

definition notify_lawyers_if_qualified :: "world \<Rightarrow> string \<Rightarrow> string \<Rightarrow> (pstate, notify_result) prog" where
  "notify_lawyers_if_qualified w sid plat =
    try_except
      (then_do get_session (\<lambda>sd.
         let notification_check = should_notify_lawyers sd plat in
         if \<not> should_notify notification_check then
           ret \<lparr>notified = False, success = None, result_reason = reason notification_check\<rparr>
         else
           (let ld = lead_data sd;
                d = \<lparr>lead_name = get_or ld ''identification'' ''Lead Qualificado'',
                     lead_phone = get_or ld ''phone'' [],
                     category = get_or ld ''area_qualification'' ''nao especificada'',
                     lead_source = plat @ ''_qualified_lead''\<rparr>
            in
            try_except
              (then_do (on_env (notify_lawyers_of_new_lead w d)) (\<lambda>ok.
                 if ok then
                   then_do (on_env now) (\<lambda>t.
                   then_do (modify (\<lambda>s. s\<lparr>lawyers_notified := True, lawyers_notified_at := Some t\<rparr>)) (\<lambda>_.
                   then_do (save_current w sid) (\<lambda>_.
                   ret \<lparr>notified = True, success = Some True, result_reason = []\<rparr>)))
                 else ret \<lparr>notified = True, success = Some False,
                           result_reason = ''notification_failed''\<rparr>))
              (\<lambda>e. ret \<lparr>notified = True, success = Some False,
                         result_reason = ''notification_exception''\<rparr>))))
      (\<lambda>e. ret \<lparr>notified = False, success = None, result_reason = ''notification_logic_error''\<rparr>)"

text \<open>\<open>_handle_lead_finalization\<close>. The phone is \<open>lead_data["phone"]\<close>, else the
  session's \<open>phone_number\<close>; fewer than ten characters end the procedure with a re-prompt.\<close>

definition lift_result :: "py_error + 'a \<Rightarrow> ('s, 'a) prog" where
  "lift_result r = (case r of Inl e \<Rightarrow> raise e | Inr x \<Rightarrow> ret x)"

definition phone_reprompt :: "string \<Rightarrow> string" where
  "phone_reprompt first_name =
    ''Para finalizar, '' @ first_name @ '', preciso do seu WhatsApp com DDD (ex: 11999999999):''"

definition final_message :: "string \<Rightarrow> bool \<Rightarrow> bool \<Rightarrow> string" where
  "final_message first_name notification_success whatsapp_success =
    ''Perfeito, '' @ first_name @ ''!'' @ nl @ nl
    @ ''Todas suas informacoes foram registradas com sucesso''
    @ (if notification_success then '' Nossa equipe foi imediatamente notificada!'' else [])
    @ nl @ nl
    @ ''Um advogado experiente do m.lima entrara em contato com voce em breve para dar prosseguimento ao seu caso com toda atencao necessaria.''
    @ nl @ nl
    @ (if whatsapp_success then ''Mensagem de confirmacao enviada no seu WhatsApp!''
       else ''Suas informacoes foram salvas com seguranca.'')
    @ nl @ nl
    @ ''Voce fez a escolha certa ao confiar no escritorio m.lima para cuidar do seu caso!''
    @ nl @ nl @ ''Em alguns minutos, um especialista entrara em contato.''"

definition lead_answers :: "pydict \<Rightarrow> string \<Rightarrow> (nat \<times> string \<times> string) list" where
  "lead_answers ld phone_clean =
    filter (\<lambda>(i, f, answer). answer \<noteq> [])
      [(1, ''name'', get_or ld ''identification'' []),
       (3, ''area'', get_or ld ''area_qualification'' []),
       (4, ''details'', get_or ld ''case_details'' []),
       (99, ''phone'', phone_clean),
       (98, ''contact_time'', get_or ld ''preferred_contact_time'' ''nao informado''),
       (5, ''confirmation'', get_or ld ''confirmation'' [])]"

text \<open>The three guarded blocks of the procedure: dispatcher, lead store, follow-up
  message. Each catches whatever is raised inside it.\<close>

definition finalization_notify ::
  "world \<Rightarrow> string \<Rightarrow> dispatch \<Rightarrow> (pstate, bool) prog" where
  "finalization_notify w sid d =
    try_except
      (then_do get_session (\<lambda>cur.
         if \<not> lawyers_notified cur then
           then_do (on_env (notify_lawyers_of_new_lead w d)) (\<lambda>ok.
             if ok then
               then_do (on_env now) (\<lambda>t.
               then_do (modify (\<lambda>s. s\<lparr>lawyers_notified := True, lawyers_notified_at := Some t\<rparr>)) (\<lambda>_.
               then_do (save_current w sid) (\<lambda>_. ret True)))
             else ret False)
         else ret True))
      (\<lambda>e. ret False)"

definition finalization_save_lead :: "world \<Rightarrow> string \<Rightarrow> (pstate, unit) prog" where
  "finalization_save_lead w phone_clean =
    try_except
      (then_do get_session (\<lambda>cur.
         on_env (save_lead_data w (lead_answers (lead_data cur) phone_clean))))
      (\<lambda>e. ret ())"

definition finalization_whatsapp ::
  "world \<Rightarrow> string \<Rightarrow> string \<Rightarrow> string \<Rightarrow> string \<Rightarrow> (pstate, bool) prog" where
  "finalization_whatsapp w plat user_name area phone_fmt =
    (if plat = ''web'' then
       then_do (lift_result (get_strategic_whatsapp_message user_name area phone_fmt))
         (\<lambda>strategic_message.
            try_except (on_env (send_text_message w phone_fmt strategic_message))
                       (\<lambda>e. ret False))
     else ret False)"

definition finalization_proceed ::
  "world \<Rightarrow> string \<Rightarrow> string \<Rightarrow> string \<Rightarrow> string \<Rightarrow> string \<Rightarrow> string \<Rightarrow> (pstate, string) prog" where
  "finalization_proceed w sid plat user_name first_name area phone_clean =
    (let phone_fmt = format_brazilian_phone phone_clean in
     then_do (on_env now) (\<lambda>t.
     then_do (modify (\<lambda>s. s\<lparr>phone_number := Str phone_clean, phone_formatted := phone_fmt,
                              phone_submitted := True, lead_qualified := True,
                              last_updated := t,
                              lead_data := dict_set (lead_data s) ''phone'' phone_clean\<rparr>)) (\<lambda>_.
     then_do (save_current w sid) (\<lambda>_.
     then_do (finalization_notify w sid
                \<lparr>lead_name = user_name, lead_phone = phone_clean, category = area,
                 lead_source = plat @ ''_completed_flow''\<rparr>) (\<lambda>notification_success.
     then_do (finalization_save_lead w phone_clean) (\<lambda>_.
     then_do (finalization_whatsapp w plat user_name area phone_fmt) (\<lambda>whatsapp_success.
     ret (final_message first_name notification_success whatsapp_success))))))))"

definition handle_lead_finalization :: "world \<Rightarrow> string \<Rightarrow> (pstate, string) prog" where
  "handle_lead_finalization w sid =
    try_except
      (then_do get_session (\<lambda>sd.
         let ld = lead_data sd;
             plat = platform sd;
             user_name = get_or ld ''identification'' ''Cliente'';
             area = get_or ld ''area_qualification'' ''nao especificada'';
             phone_clean = (let p = get_or ld ''phone'' [] in
                            if p = [] then (case phone_number sd of Str q \<Rightarrow> q | _ \<Rightarrow> []) else p)
         in
         then_do (lift_result (first_name_or user_name ''Cliente'')) (\<lambda>first_name.
           if phone_clean = [] \<or> length phone_clean < 10 then ret (phone_reprompt first_name)
           else finalization_proceed w sid plat user_name first_name area phone_clean)))
      (\<lambda>e. then_do get_session (\<lambda>sd.
         then_do (lift_result (first_name_or (get_or (lead_data sd) ''identification'' []) [])) (\<lambda>first_name.
         ret (''Obrigado pelas informacoes, '' @ first_name
              @ ''! Nossa equipe entrara em contato em breve.''))))"

section \<open>The flow controller\<close>

definition greeting_now :: "world \<Rightarrow> (env, string) prog" where
  "greeting_now w e = (Inr (get_personalized_greeting (hour_at w (tick e))), e)"

definition flow_steps_now :: "world \<Rightarrow> string \<Rightarrow> (env, (string \<times> step_config) list) prog" where
  "flow_steps_now w plat e = (Inr (get_flow_steps (hour_at w (tick e)) plat), e)"

text \<open>The \<open>phone_collection\<close> step, after the answer has been accepted.\<close>

definition collect_phone :: "world \<Rightarrow> string \<Rightarrow> string \<Rightarrow> string \<Rightarrow>
    (string \<times> step_config) list \<Rightarrow> (pstate, string) prog" where
  "collect_phone w sid plat message flow_steps =
    then_do
      (if plat = ''whatsapp'' then
         modify (\<lambda>s.
           let ld = dict_set (lead_data s) ''preferred_contact_time'' (strip message);
               ld = (case phone_number s of
                       Str p \<Rightarrow> if p \<noteq> [] then dict_set ld ''phone'' p else ld
                     | _ \<Rightarrow> ld)
           in s\<lparr>lead_data := ld, phone_submitted := True, current_step := ''step5_confirmation''\<rparr>)
       else
         modify (\<lambda>s. s\<lparr>lead_data := dict_set (lead_data s) ''phone'' (digits_of message),
                        phone_submitted := True, current_step := ''step5_confirmation''\<rparr>)) (\<lambda>_.
    then_do (save_current w sid) (\<lambda>_.
    then_do get_session (\<lambda>cur.
    ret (interpolate_message (question_of flow_steps ''step5_confirmation'') (lead_data cur)))))"

text \<open>Any other step of the table, after the answer has been accepted: write the
  step's field, then either complete the flow and finalize, or move to the next step.\<close>

definition advance_step :: "world \<Rightarrow> string \<Rightarrow> string \<Rightarrow> step_config \<Rightarrow>
    (string \<times> step_config) list \<Rightarrow> (pstate, string) prog" where
  "advance_step w sid message cfg flow_steps =
    then_do (modify (\<lambda>s. case field cfg of
                            None \<Rightarrow> s
                          | Some field_name \<Rightarrow>
                              if field_name \<noteq> []
                              then s\<lparr>lead_data := dict_set (lead_data s) field_name (strip message)\<rparr>
                              else s)) (\<lambda>_.
    if next_step cfg = ''completed'' then
      then_do (modify (\<lambda>s. s\<lparr>current_step := ''completed'', flow_completed := True\<rparr>)) (\<lambda>_.
      then_do (save_current w sid) (\<lambda>_.
      handle_lead_finalization w sid))
    else
      then_do (modify (\<lambda>s. s\<lparr>current_step := next_step cfg\<rparr>)) (\<lambda>_.
      then_do (save_current w sid) (\<lambda>_.
      then_do get_session (\<lambda>cur.
      ret (interpolate_message (question_of flow_steps (next_step cfg)) (lead_data cur))))))"

definition process_conversation_flow :: "world \<Rightarrow> string \<Rightarrow> (pstate, string) prog" where
  "process_conversation_flow w message =
    try_except
      (then_do get_session (\<lambda>sd.
         let sid = session_id sd;
             step = current_step sd;
             ld = lead_data sd;
             plat = platform sd
         in
         if session_ended sd then
           then_do (lift_result (first_name_or (get_or ld ''identification'' []) [])) (\<lambda>user_name.
           ret (''Esta conversa ja foi finalizada, '' @ user_name
                @ ''. Nossa equipe entrara em contato em breve!''))
         else
           then_do (on_env (flow_steps_now w plat)) (\<lambda>flow_steps.
           if first_interaction sd then
             then_do (modify (\<lambda>s. s\<lparr>first_interaction := False, current_step := ''step1_name''\<rparr>)) (\<lambda>_.
             then_do (save_current w sid) (\<lambda>_.
             ret (question_of flow_steps ''greeting'' @ nl @ nl
                  @ question_of flow_steps ''step1_name'')))
           else if step = ''greeting'' then
             then_do (modify (\<lambda>s. s\<lparr>current_step := ''step1_name''\<rparr>)) (\<lambda>_.
             then_do (save_current w sid) (\<lambda>_.
             ret (question_of flow_steps ''step1_name'')))
           else if step = ''completed'' then
             then_do (lift_result (first_name_or (get_or ld ''identification'' []) [])) (\<lambda>user_name.
             ret (''Obrigado, '' @ user_name
                  @ ''! Nossa equipe ja foi notificada e entrara em contato em breve.''))
           else if step = ''phone_collection'' then
             (case validate_answer message step plat of
                (is_valid, error_msg) \<Rightarrow>
                  if \<not> is_valid then ret error_msg
                  else collect_phone w sid plat message flow_steps)
           else
             (case map_of flow_steps step of
                Some cfg \<Rightarrow>
                  (case validate_answer message step plat of
                     (is_valid, error_msg) \<Rightarrow>
                       if \<not> is_valid then ret error_msg
                       else advance_step w sid message cfg flow_steps)
              | None \<Rightarrow>
                  then_do (modify (\<lambda>s. s\<lparr>current_step := ''greeting'', first_interaction := True\<rparr>)) (\<lambda>_.
                  then_do (save_current w sid) (\<lambda>_.
                  on_env (greeting_now w)))))))
      (\<lambda>e. on_env (greeting_now w))"

section \<open>The entry points\<close>

record pm_result =
  response_type :: string
  response :: string
  out_current_step :: "string option"
  out_flow_completed :: bool
  out_lawyers_notified :: bool
  out_phone_submitted :: bool
  out_lead_data :: pydict
  out_message_count :: int
  out_whatsapp_authorized :: bool
  out_session_ended :: bool
  out_qualification_score :: "pyfloat option"

definition early_result :: "string \<Rightarrow> string \<Rightarrow> pm_result" where
  "early_result kind text =
    \<lparr>response_type = kind, response = text, out_current_step = None,
     out_flow_completed = False, out_lawyers_notified = False, out_phone_submitted = False,
     out_lead_data = [], out_message_count = 0, out_whatsapp_authorized = False,
     out_session_ended = False, out_qualification_score = None\<rparr>"

definition flow_result :: "string \<Rightarrow> string \<Rightarrow> session \<Rightarrow> pm_result" where
  "flow_result plat text sd =
    \<lparr>response_type = plat @ ''_flow'',
     response = (if text = [] then ''Como posso ajuda-lo hoje?'' else text),
     out_current_step = Some (current_step sd),
     out_flow_completed = flow_completed sd,
     out_lawyers_notified = lawyers_notified sd,
     out_phone_submitted = phone_submitted sd,
     out_lead_data = lead_data sd,
     out_message_count = message_count sd,
     out_whatsapp_authorized = whatsapp_authorized sd,
     out_session_ended = session_ended sd,
     out_qualification_score = Some (calculate_qualification_score (lead_data sd) plat)\<rparr>"

text \<open>\<open>process_message\<close> from the authorization check on, with the session in hand.\<close>

definition process_in_session ::
  "world \<Rightarrow> string \<Rightarrow> string \<Rightarrow> string option \<Rightarrow> string \<Rightarrow> (pstate, pm_result) prog" where
  "process_in_session w message sid phone plat =
    then_do get_session (\<lambda>sd.
    if plat = ''whatsapp'' \<and> \<not> whatsapp_authorized sd \<and> lead_data sd = [] then
      ret (early_result ''whatsapp_unauthorized'' get_whatsapp_unauthorized_message)
    else
      then_do
        (if plat = ''whatsapp'' \<and> lead_data sd \<noteq> [] \<and> \<not> whatsapp_authorized sd then
           then_do (modify (\<lambda>s. s\<lparr>whatsapp_authorized := True\<rparr>)) (\<lambda>_. save_current w sid)
         else ret ()) (\<lambda>_.
      then_do
        (case phone of
           Some p \<Rightarrow>
             if plat = ''whatsapp'' \<and> p \<noteq> [] then
               modify (\<lambda>s. s\<lparr>phone_number := Str p,
                              lead_data := dict_set (lead_data s) ''phone'' p\<rparr>)
             else ret ()
         | None \<Rightarrow> ret ()) (\<lambda>_.
      then_do (process_conversation_flow w message) (\<lambda>text.
      then_do (on_env now) (\<lambda>t.
      then_do (modify (\<lambda>s. s\<lparr>message_count := message_count s + 1, last_updated := t\<rparr>)) (\<lambda>_.
      then_do (save_current w sid) (\<lambda>_.
      then_do get_session (\<lambda>final.
      ret (flow_result plat text final)))))))))"

definition process_message ::
  "world \<Rightarrow> string \<Rightarrow> string \<Rightarrow> string option \<Rightarrow> string \<Rightarrow> (env, pm_result) prog" where
  "process_message w message sid phone plat =
    try_except
      (if sid = [] \<or> strip sid = [] then
         ret (early_result ''no_session''
                ''Para continuar, voce precisa gerar sua ficha na nossa landing page.'')
       else
         then_do (get_or_create_session w sid plat phone) (\<lambda>sd.
         in_session sd (process_in_session w message sid phone plat)))
      (\<lambda>e. then_do (greeting_now w) (\<lambda>g.
         ret (early_result ''orchestration_error''
                (if g = [] then ''Ola! Como posso ajuda-lo?'' else g))))"

record auth_data =
  auth_session_id :: string
  auth_phone_number :: string
  auth_source :: string
  user_data :: pydict

definition prepopulated_session :: "auth_data \<Rightarrow> nat \<Rightarrow> session" where
  "prepopulated_session a t =
    \<lparr>session_id = auth_session_id a, platform = ''whatsapp'', current_step = ''completed'',
     lead_data = [(''identification'', get_or (user_data a) ''name'' []),
                  (''area_qualification'', get_or (user_data a) ''area'' ''nao especificada''),
                  (''case_details'', get_or (user_data a) ''problem'' ''Detalhes do chat da landing''),
                  (''phone'', auth_phone_number a),
                  (''confirmation'', ''sim'')],
     message_count = 1, flow_completed = True, phone_submitted = True,
     lawyers_notified = False, first_interaction = False, whatsapp_authorized = True,
     authorization_source = auth_source a, session_ended = False,
     phone_number = Str (auth_phone_number a), reset_count = 0, lead_qualified = True,
     phone_formatted = [], created_at = t, last_updated = t, ended_at = None,
     previous_session_ended_at = None, lawyers_notified_at = None\<rparr>"

definition authorized_session :: "auth_data \<Rightarrow> nat \<Rightarrow> session" where
  "authorized_session a t =
    (fresh_session (auth_session_id a) ''whatsapp'' t)
      \<lparr>phone_number := Str (auth_phone_number a), whatsapp_authorized := True,
       authorization_source := auth_source a\<rparr>"

definition handle_whatsapp_authorization :: "world \<Rightarrow> auth_data \<Rightarrow> (env, string) prog" where
  "handle_whatsapp_authorization w a =
    try_except
      (let sid = auth_session_id a in
       if user_data a \<noteq> [] \<and> auth_source a = ''landing_chat'' then
         then_do now (\<lambda>t.
           let sd = prepopulated_session a t in
           then_do (save_user_session w sid sd) (\<lambda>_.
           then_do (in_session sd (notify_lawyers_if_qualified w sid ''whatsapp'')) (\<lambda>_.
           ret ''authorization_processed'')))
       else
         then_do (get_user_session w sid) (\<lambda>found.
           case found of
             Some sd \<Rightarrow>
               then_do (save_user_session w sid
                          (sd\<lparr>whatsapp_authorized := True, authorization_source := auth_source a\<rparr>))
                 (\<lambda>_. ret ''authorization_processed'')
           | None \<Rightarrow>
               then_do now (\<lambda>t.
               then_do (save_user_session w sid (authorized_session a t))
                 (\<lambda>_. ret ''authorization_processed''))))
      (\<lambda>e. ret ''authorization_error'')"

definition end_session :: "world \<Rightarrow> string \<Rightarrow> (env, string) prog" where
  "end_session w sid =
    try_except
      (then_do (get_user_session w sid) (\<lambda>found.
         case found of
           Some sd \<Rightarrow>
             then_do now (\<lambda>t.
             then_do (save_user_session w sid
                        (sd\<lparr>session_ended := True, ended_at := Some t, current_step := ''ended''\<rparr>))
               (\<lambda>_. ret ''ended''))
         | None \<Rightarrow> ret ''not_found''))
      (\<lambda>e. ret ''error'')"

section \<open>Histories of calls\<close>

datatype call =
    ProcessMessage string string "string option" string
  | Authorize auth_data
  | EndSession string

fun run_call :: "world \<Rightarrow> call \<Rightarrow> env \<Rightarrow> env" where
  "run_call w (ProcessMessage message sid phone plat) e = snd (process_message w message sid phone plat e)"
| "run_call w (Authorize a) e = snd (handle_whatsapp_authorization w a e)"
| "run_call w (EndSession sid) e = snd (end_session w sid e)"

definition run_calls :: "world \<Rightarrow> call list \<Rightarrow> env \<Rightarrow> env" where
  "run_calls w calls e = foldl (\<lambda>e' c. run_call w c e') e calls"

definition initial_env :: env where
  "initial_env = \<lparr>store = Map.empty, tick = 0, dispatches = [], sent_messages = [], saved_leads = []\<rparr>"

text \<open>A world in which every collaborator call succeeds, at ten in the morning.\<close>

definition calm_world :: world where
  "calm_world = \<lparr>outcome_at = (\<lambda>t. Succeeds), hour_at = (\<lambda>t. 10)\<rparr>"

section \<open>Assertions about computations\<close>

text \<open>\<open>triple P m Q E\<close>: started in a state satisfying \<open>P\<close>, the computation \<open>m\<close>
  either returns \<open>x\<close> in a state satisfying \<open>Q x\<close> or raises in a state satisfying \<open>E\<close>.\<close>

definition triple ::
  "('s \<Rightarrow> bool) \<Rightarrow> ('s, 'a) prog \<Rightarrow> ('a \<Rightarrow> 's \<Rightarrow> bool) \<Rightarrow> ('s \<Rightarrow> bool) \<Rightarrow> bool" where
  "triple P m Q E =
    (\<forall>s. P s \<longrightarrow> (case m s of (Inl err, s') \<Rightarrow> E s' | (Inr x, s') \<Rightarrow> Q x s'))"

text \<open>\<open>keeps I m\<close>: \<open>m\<close> maintains \<open>I\<close>, however it ends.\<close>

definition keeps :: "('s \<Rightarrow> bool) \<Rightarrow> ('s, 'a) prog \<Rightarrow> bool" where
  "keeps I m = triple I m (\<lambda>x. I) I"

section \<open>Sequences of calls to the notification paths\<close>

datatype notify_path = ViaGate string | ViaFinalization

text \<open>One call to a notification path on the session dictionary in hand: the gate with
  a platform, or the finalization procedure. An exception leaves the caller holding the
  same dictionary.\<close>

fun run_path :: "world \<Rightarrow> string \<Rightarrow> notify_path \<Rightarrow> pstate \<Rightarrow> pstate" where
  "run_path w sid (ViaGate plat) st = snd (notify_lawyers_if_qualified w sid plat st)"
| "run_path w sid ViaFinalization st = snd (handle_lead_finalization w sid st)"

definition run_paths :: "world \<Rightarrow> string \<Rightarrow> notify_path list \<Rightarrow> pstate \<Rightarrow> pstate" where
  "run_paths w sid paths st = foldl (\<lambda>st' p. run_path w sid p st') st paths"

section \<open>Example sessions\<close>

definition blank_session :: session where
  "blank_session = fresh_session ''s1'' ''whatsapp'' 0"

text \<open>A WhatsApp lead at the confirmation step whose legal area is two characters long.\<close>

definition short_area_session :: session where
  "short_area_session =
    blank_session\<lparr>current_step := ''completed'', message_count := 3,
      lead_data := [(''identification'', ''Ana Lima''), (''area_qualification'', ''ab''),
                    (''case_details'', ''Detalhes do chat da landing''),
                    (''phone'', ''11999999999''), (''confirmation'', ''sim'')]\<rparr>"

definition penal_area_session :: session where
  "penal_area_session =
    blank_session\<lparr>current_step := ''completed'', message_count := 3,
      lead_data := [(''identification'', ''Ana Lima''), (''area_qualification'', ''penal''),
                    (''case_details'', ''Detalhes do chat da landing''),
                    (''phone'', ''11999999999''), (''confirmation'', ''sim'')]\<rparr>"

definition maria_lead :: pydict where
  "maria_lead =
    [(''identification'', ''Maria Souza''), (''phone'', ''11987654321''),
     (''area_qualification'', ''Direito Penal''),
     (''case_details'', ''Fui acusada injustamente de um crime que nao cometi, preciso de defesa urgente''),
     (''confirmation'', ''sim'')]"

text \<open>A completed lead whose lawyers have been notified.\<close>

definition notified_session :: session where
  "notified_session = penal_area_session\<lparr>flow_completed := True, lawyers_notified := True\<rparr>"

text \<open>The single-fire condition: the session in hand is flagged as notified and the
  dispatcher's call log is \<open>D\<close>.\<close>

definition fired :: "dispatch list \<Rightarrow> pstate \<Rightarrow> bool" where
  "fired D st = (lawyers_notified (fst st) \<and> dispatches (snd st) = D)"

text \<open>An authorization event from the landing page's chat, with the lead's data.\<close>

definition landing_auth :: auth_data where
  "landing_auth = \<lparr>auth_session_id = ''5511999999999'', auth_phone_number = ''5511999999999'',
      auth_source = ''landing_chat'',
      user_data = [(''name'', ''Ana Lima''), (''area'', ''Direito Penal''), (''problem'', ''Fui acusada injustamente de um crime'')]\<rparr>"

text \<open>A WhatsApp sender nobody has authorized, and the environment after their first
  message.\<close>

definition unseen_sender :: string where
  "unseen_sender = ''5511999999999''"

definition after_first_contact :: env where
  "after_first_contact =
    snd (process_message calm_world ''oi'' unseen_sender (Some unseen_sender) ''whatsapp'' initial_env)"

text \<open>
  An authorized WhatsApp sender whose transport number has five digits. The record is the
  one the store holds after the authorization (source \<open>whatsapp_button\<close>, no user data)
  and the answers \<open>oi\<close>, \<open>Ana Lima\<close>, \<open>direito penal\<close>,
  \<open>Fui acusada injustamente de um crime\<close> and \<open>de manha\<close>: the confirmation question
  has just been asked.
\<close>

definition short_sender :: string where
  "short_sender = ''12345''"

definition confirmation_record :: session where
  "confirmation_record =
    \<lparr>session_id = short_sender, platform = ''whatsapp'', current_step = ''step5_confirmation'',
     lead_data = [(''phone'', ''12345''), (''identification'', ''Ana Lima''),
                  (''area_qualification'', ''direito penal''),
                  (''case_details'', ''Fui acusada injustamente de um crime''),
                  (''preferred_contact_time'', ''de manha'')],
     message_count = 5, flow_completed = False, phone_submitted = True,
     lawyers_notified = False, first_interaction = False, whatsapp_authorized = True,
     authorization_source = ''whatsapp_button'', session_ended = False,
     phone_number = Str ''12345'', reset_count = 0, lead_qualified = False,
     phone_formatted = [], created_at = 1, last_updated = 15, ended_at = None,
     previous_session_ended_at = None, lawyers_notified_at = None\<rparr>"

definition at_confirmation :: env where
  "at_confirmation = initial_env\<lparr>store := [short_sender \<mapsto> confirmation_record], tick := 17\<rparr>"

section \<open>Named intermediate sessions\<close>

text \<open>The phone number finalization works with: \<open>lead_data["phone"]\<close>, else the
  session's \<open>phone_number\<close>.\<close>

definition resolved_phone :: "session \<Rightarrow> string" where
  "resolved_phone sd =
    (let p = get_or (lead_data sd) ''phone'' [] in
     if p = [] then (case phone_number sd of Str q \<Rightarrow> q | _ \<Rightarrow> []) else p)"

text \<open>The session after an accepted answer to the confirmation question: the answer
  written, the step and the flag set.\<close>

definition confirmed :: "session \<Rightarrow> string \<Rightarrow> session" where
  "confirmed sd message =
     sd\<lparr>lead_data := dict_set (lead_data sd) ''confirmation'' (strip message),
        current_step := ''completed'', flow_completed := True\<rparr>"

text \<open>What \<open>process_message\<close> does with the transport number of a WhatsApp message.\<close>

definition with_phone :: "string \<Rightarrow> string option \<Rightarrow> session \<Rightarrow> session" where
  "with_phone plat phone sd =
    (case phone of
       None \<Rightarrow> sd
     | Some p \<Rightarrow> if plat = ''whatsapp'' \<and> p \<noteq> []
                  then sd\<lparr>phone_number := Str p, lead_data := dict_set (lead_data sd) ''phone'' p\<rparr>
                  else sd)"

text \<open>The closing bookkeeping of \<open>process_message\<close>.\<close>

definition counted :: "session \<Rightarrow> nat \<Rightarrow> session" where
  "counted sd t = sd\<lparr>message_count := message_count sd + 1, last_updated := t\<rparr>"

text \<open>The confirmation-step record as \<open>process_message\<close> holds it when the flow starts.\<close>

definition confirmation_in_hand :: session where
  "confirmation_in_hand =
     with_phone ''whatsapp'' (Some short_sender) (set_phone (Some short_sender) confirmation_record)"

text \<open>The confirmation-step record once the flow has completed, alone in the store.\<close>

definition completed_record :: session where
  "completed_record = confirmed confirmation_record ''sim''"

definition at_completed :: env where
  "at_completed = initial_env\<lparr>store := [short_sender \<mapsto> completed_record], tick := 20\<rparr>"

section \<open>The completed flag of stored records\<close>

text \<open>
  What the flag \<open>flow_completed\<close> and the step name of one record have to do with
  each other: the step \<open>completed\<close> carries the flag, and the flag is carried only
  by the step \<open>completed\<close> or by a record that \<open>end_session\<close> has closed.
\<close>

definition step_consistent :: "session \<Rightarrow> bool" where
  "step_consistent sd =
    ((current_step sd = ''completed'' \<longrightarrow> flow_completed sd)
     \<and> (flow_completed sd \<longrightarrow>
          current_step sd = ''completed'' \<or> (current_step sd = ''ended'' \<and> session_ended sd)))"

text \<open>A record the flow controller works on: consistent and not yet completed.\<close>

definition live :: "session \<Rightarrow> bool" where
  "live sd = (step_consistent sd \<and> \<not> flow_completed sd)"

text \<open>Every stored record is consistent; \<open>holding P\<close> adds a property of the
  dictionary in hand.\<close>

definition store_inv :: "env \<Rightarrow> bool" where
  "store_inv e = (\<forall>sid sd. store e sid = Some sd \<longrightarrow> step_consistent sd)"

definition holding :: "(session \<Rightarrow> bool) \<Rightarrow> pstate \<Rightarrow> bool" where
  "holding P st = (P (fst st) \<and> store_inv (snd st))"


section \<open>Properties of the validator\<close>

text \<open>
  C7. The validator table of the specification: on the web channel, \<open>Jo\<close> is rejected and
  \<open>Joao Silva\<close> (written with a-tilde) accepted as a name, \<open>preciso de ajuda\<close> is rejected and
  \<open>preciso de um advogado penal\<close> accepted as an area, \<open>11999999999\<close> is accepted and
  \<open>123\<close> rejected as a phone number.
\<close>

theorem validator_table:
  "\<not> fst (validate_answer ''Jo'' ''step1_name'' ''web'')
   \<and> fst (validate_answer (''Jo'' @ [a_tilde] @ ''o Silva'') ''step1_name'' ''web'')
   \<and> \<not> fst (validate_answer ''preciso de ajuda'' ''step3_area'' ''web'')
   \<and> fst (validate_answer ''preciso de um advogado penal'' ''step3_area'' ''web'')
   \<and> fst (validate_answer ''11999999999'' ''phone_collection'' ''web'')
   \<and> \<not> fst (validate_answer ''123'' ''phone_collection'' ''web'')"
  by code_simp

section \<open>Properties of the scorer\<close>

lemma fadd_nonneg: "0 \<le> x \<Longrightarrow> 0 \<le> y \<Longrightarrow> 0 \<le> fadd x y"
  by (simp add: fadd_def Let_def pos_imp_zdiv_nonneg_iff)

lemma add_when_nonneg: "0 \<le> s \<Longrightarrow> 0 \<le> p \<Longrightarrow> 0 \<le> add_when c p s"
  by (simp add: add_when_def fadd_nonneg)

lemma points_nonneg:
  "0 \<le> f_0_03" "0 \<le> f_0_04" "0 \<le> f_0_08" "0 \<le> f_0_10" "0 \<le> f_0_15" "0 \<le> f_0_25" "0 \<le> f_1_0"
  by (simp_all add: f_0_03_def f_0_04_def f_0_08_def f_0_10_def f_0_15_def f_0_25_def f_1_0_def)

lemma score_nonneg: "0 \<le> calculate_qualification_score ld plat"
  unfolding calculate_qualification_score_def Let_def
  by (simp add: add_when_nonneg fadd_nonneg points_nonneg)

lemma score_le_one: "calculate_qualification_score ld plat \<le> f_1_0"
  unfolding calculate_qualification_score_def Let_def by simp

lemma score_empty: "calculate_qualification_score [] plat = 0"
  by (simp add: calculate_qualification_score_def get_or_def strip_def split_def add_when_def
        points_nonneg)

lemma any_in_high_value_nonempty: "any_in high_value_keywords s \<Longrightarrow> s \<noteq> []"
  by (auto simp: any_in_def high_value_keywords_def)

text \<open>The nine point values, added in the order of the source, give exactly \<open>1.0\<close>.\<close>

lemma full_sum:
  "fadd (fadd (fadd (fadd (fadd (fadd (fadd (fadd (fadd 0 f_0_15) f_0_10) f_0_25) f_0_15)
     f_0_10) f_0_08) f_0_04) f_0_03) f_0_10 = f_1_0"
  by code_simp

lemma score_maximal:
  assumes m: "maximal_lead ld"
  shows "calculate_qualification_score ld plat = f_1_0"
proof -
  from m have a: "strip (get_or ld ''area_qualification'' []) \<noteq> []"
    using any_in_high_value_nonempty[of "lower (strip (get_or ld ''area_qualification'' []))"]
    by (auto simp: maximal_lead_def lower_def)
  from m have b: "strip (get_or ld ''phone'' []) \<noteq> []" "strip (get_or ld ''case_details'' []) \<noteq> []"
    by (auto simp: maximal_lead_def)
  from m have c: "20 \<le> length (strip (get_or ld ''case_details'' []))"
    by (auto simp: maximal_lead_def)
  show ?thesis using m a b c
    unfolding calculate_qualification_score_def Let_def maximal_lead_def add_when_def
    by (simp add: full_sum)
qed

lemma float_val_one: "float_val f_1_0 = 1"
  by (simp add: float_val_def f_1_0_def)

text \<open>
  C8. For every lead and platform the score lies between \<open>0.0\<close> and \<open>1.0\<close>; the empty
  lead scores \<open>0.0\<close>; a fully populated lead (a name of three characters and two tokens,
  a phone of ten characters, an area with a high-value keyword, fifty characters of case
  details, a confirmation) scores at least \<open>0.95\<close>, in fact the nine point values add
  up to exactly \<open>1.0\<close> in the float arithmetic of the code.
\<close>

theorem scorer_bounds:
  "0 \<le> float_val (calculate_qualification_score ld plat)
   \<and> float_val (calculate_qualification_score ld plat) \<le> 1
   \<and> float_val (calculate_qualification_score [] plat) = 0
   \<and> (maximal_lead ld \<longrightarrow>
        float_val (calculate_qualification_score ld plat) \<ge> 95 / 100
        \<and> float_val (calculate_qualification_score ld plat) = 1)"
proof -
  have "0 \<le> float_val (calculate_qualification_score ld plat)"
    using score_nonneg[of ld plat] by (simp add: float_val_def)
  moreover have "float_val (calculate_qualification_score ld plat) \<le> 1"
    using score_le_one[of ld plat] by (simp add: float_val_def f_1_0_def)
  moreover have "float_val (calculate_qualification_score [] plat) = 0"
    by (simp add: score_empty float_val_def)
  moreover have "float_val (calculate_qualification_score ld plat) = 1" if "maximal_lead ld"
    using score_maximal[OF that] by (simp add: float_val_one)
  ultimately show ?thesis by simp
qed

theorem scorer_bounds_witness:
  "maximal_lead maria_lead
   \<and> float_val (calculate_qualification_score maria_lead ''web'') \<ge> 95 / 100
   \<and> float_val (calculate_qualification_score maria_lead ''web'') = 1"
proof -
  have h: "maximal_lead maria_lead" by code_simp
  show ?thesis using h scorer_bounds[of maria_lead "''web''"] by blast
qed

section \<open>Properties of the notification gate\<close>

text \<open>
  C2, as the code has it. For a session not yet notified the gate says yes exactly when:
  on web, the flow is completed, the five fields are non-empty, the trimmed name has 3,
  the trimmed details 15 and the trimmed phone 10 characters, and the score is at least
  \<open>0.8\<close>; on WhatsApp, three messages were counted, name, area and phone are non-empty,
  the trimmed name has 3, the trimmed area 3 and the trimmed phone 10 characters, the
  step is \<open>step5_confirmation\<close> or \<open>completed\<close>, and the score is at least \<open>0.7\<close>.
  Otherwise it says no with reason \<open>not_qualified_yet\<close>.
\<close>

theorem notification_gate_criteria:
  "\<not> lawyers_notified sd \<Longrightarrow>
     should_notify (should_notify_lawyers sd plat) = gate_criteria sd plat
     \<and> (\<not> gate_criteria sd plat \<longrightarrow>
          reason (should_notify_lawyers sd plat) = ''not_qualified_yet'')"
  by (auto simp: should_notify_lawyers_def gate_criteria_def Let_def)

theorem notification_gate_criteria_witness:
  "\<not> lawyers_notified penal_area_session
   \<and> gate_criteria penal_area_session ''whatsapp''
   \<and> should_notify (should_notify_lawyers penal_area_session ''whatsapp'')
   \<and> \<not> lawyers_notified short_area_session
   \<and> \<not> gate_criteria short_area_session ''whatsapp''
   \<and> reason (should_notify_lawyers short_area_session ''whatsapp'') = ''not_qualified_yet''"
proof -
  have a: "\<not> lawyers_notified penal_area_session" by code_simp
  have b: "gate_criteria penal_area_session ''whatsapp''" by code_simp
  have c: "\<not> lawyers_notified short_area_session" by code_simp
  have d: "\<not> gate_criteria short_area_session ''whatsapp''" by code_simp
  show ?thesis
    using a b c d
      notification_gate_criteria[OF a, of "''whatsapp''"]
      notification_gate_criteria[OF c, of "''whatsapp''"]
    by blast
qed

text \<open>
  C2 as stated fails on WhatsApp: a lead with a two-character area meets every criterion
  the claim lists (three messages, fields non-empty, name and phone long enough, step
  \<open>completed\<close>, score \<open>0.87\<close>), and the gate still answers no.
\<close>

theorem notification_gate_counterexample:
  "\<not> lawyers_notified short_area_session
   \<and> spec_gate_criteria short_area_session ''whatsapp''
   \<and> \<not> should_notify (should_notify_lawyers short_area_session ''whatsapp'')"
  by code_simp

section \<open>Rules for assertions\<close>

lemma triple_bind:
  assumes "triple P m R E" and "\<And>x. triple (R x) (f x) Q E"
  shows "triple P (then_do m f) Q E"
  using assms unfolding triple_def then_do_def
  by (fastforce split: prod.splits sum.splits)

lemma triple_try:
  assumes "triple P m Q H" and "\<And>err. triple H (h err) Q E"
  shows "triple P (try_except m h) Q E"
  using assms unfolding triple_def try_except_def
  by (fastforce split: prod.splits sum.splits)

lemma triple_weaken:
  assumes "triple P' m Q' E'" and "\<And>s. P s \<Longrightarrow> P' s" and "\<And>x s. Q' x s \<Longrightarrow> Q x s"
    and "\<And>s. E' s \<Longrightarrow> E s"
  shows "triple P m Q E"
  using assms unfolding triple_def
  by (fastforce split: prod.splits sum.splits)

lemma keeps_ret: "keeps I (ret x)"
  by (simp add: keeps_def triple_def ret_def)

lemma keeps_raise: "keeps I (raise x)"
  by (simp add: keeps_def triple_def raise_def)

lemma keeps_lift_result: "keeps I (lift_result r)"
  by (cases r) (simp_all add: lift_result_def keeps_raise keeps_ret)

lemma keeps_bind: "keeps I m \<Longrightarrow> (\<And>x. keeps I (f x)) \<Longrightarrow> keeps I (then_do m f)"
  unfolding keeps_def by (rule triple_bind)

lemma keeps_try: "keeps I m \<Longrightarrow> (\<And>x. keeps I (h x)) \<Longrightarrow> keeps I (try_except m h)"
  unfolding keeps_def by (rule triple_try)

lemma keeps_if: "(c \<Longrightarrow> keeps I a) \<Longrightarrow> (\<not> c \<Longrightarrow> keeps I b) \<Longrightarrow> keeps I (if c then a else b)"
  by simp

lemma keeps_get_session: "keeps I get_session"
  by (simp add: keeps_def triple_def get_session_def)

lemma keeps_modify: "(\<And>sd e. I (sd, e) \<Longrightarrow> I (f sd, e)) \<Longrightarrow> keeps I (modify f)"
  by (simp add: keeps_def triple_def modify_def)

lemma keepsD: "keeps I m \<Longrightarrow> I s \<Longrightarrow> I (snd (m s))"
  unfolding keeps_def triple_def by (cases "m s") (auto split: sum.splits)

section \<open>Single-fire notification\<close>

lemma keeps_on_env_fired:
  assumes "\<And>e. dispatches (snd (m e)) = dispatches e"
  shows "keeps (fired D) (on_env m)"
  unfolding keeps_def triple_def
proof (intro allI impI)
  fix st :: pstate assume f: "fired D st"
  obtain r e' where m: "m (snd st) = (r, e')" by (cases "m (snd st)")
  with assms[of "snd st"] have "dispatches e' = dispatches (snd st)" by simp
  with f m show "case on_env m st of (Inl err, s') \<Rightarrow> fired D s' | (Inr x, s') \<Rightarrow> fired D s'"
    by (cases r) (simp_all add: on_env_def fired_def)
qed

lemma dispatches_advance [simp]: "dispatches (advance e) = dispatches e"
  by (simp add: advance_def)

lemma dispatches_now: "dispatches (snd (now e)) = dispatches e"
  by (simp add: now_def)

lemma dispatches_save: "dispatches (snd (save_user_session w sid sd e)) = dispatches e"
  by (simp add: save_user_session_def split: outcome.splits)

lemma dispatches_get: "dispatches (snd (get_user_session w sid e)) = dispatches e"
  by (simp add: get_user_session_def split: outcome.splits)

lemma dispatches_save_lead: "dispatches (snd (save_lead_data w a e)) = dispatches e"
  by (simp add: save_lead_data_def split: outcome.splits)

lemma dispatches_send: "dispatches (snd (send_text_message w a b e)) = dispatches e"
  by (simp add: send_text_message_def Let_def split: outcome.splits)

lemma keeps_save_current_fired: "keeps (fired D) (save_current w sid)"
  by (auto simp: keeps_def triple_def save_current_def on_env_def fired_def save_user_session_def
      split: prod.splits sum.splits outcome.splits)

lemma gate_already_notified:
  "lawyers_notified sd \<Longrightarrow> should_notify_lawyers sd plat =
     \<lparr>should_notify = False, reason = ''already_notified'', check_score = None,
      missing_criteria = []\<rparr>"
  by (simp add: should_notify_lawyers_def)

lemma gate_path_flagged:
  "lawyers_notified (fst st) \<Longrightarrow>
   notify_lawyers_if_qualified w sid plat st =
     (Inr \<lparr>notified = False, success = None, result_reason = ''already_notified''\<rparr>, st)"
  by (simp add: notify_lawyers_if_qualified_def try_except_def then_do_def get_session_def
        ret_def gate_already_notified)

lemma finalization_notify_flagged:
  "lawyers_notified (fst st) \<Longrightarrow> finalization_notify w sid d st = (Inr True, st)"
  by (simp add: finalization_notify_def try_except_def then_do_def get_session_def ret_def)

lemma keeps_notify_fired: "keeps (fired D) (finalization_notify w sid d)"
  by (simp add: keeps_def triple_def fired_def finalization_notify_flagged)

lemma keeps_save_lead_fired: "keeps (fired D) (finalization_save_lead w p)"
  unfolding finalization_save_lead_def
  by (intro keeps_try keeps_bind keeps_get_session keeps_ret keeps_on_env_fired
        dispatches_save_lead)

lemma keeps_whatsapp_fired: "keeps (fired D) (finalization_whatsapp w plat u a p)"
  unfolding finalization_whatsapp_def
  by (intro keeps_if keeps_try keeps_bind keeps_lift_result keeps_ret keeps_on_env_fired
        dispatches_send)

lemma keeps_proceed_fired: "keeps (fired D) (finalization_proceed w sid plat u f a p)"
  unfolding finalization_proceed_def Let_def
  by (intro keeps_bind keeps_ret keeps_on_env_fired dispatches_now keeps_modify
        keeps_save_current_fired keeps_notify_fired keeps_save_lead_fired keeps_whatsapp_fired)
     (simp add: fired_def)

lemma keeps_finalization_fired: "keeps (fired D) (handle_lead_finalization w sid)"
  unfolding handle_lead_finalization_def Let_def
  by (intro keeps_try keeps_bind keeps_get_session keeps_lift_result keeps_if keeps_ret
        keeps_proceed_fired)

lemma run_path_fired:
  assumes "fired D st"
  shows "fired D (run_path w sid p st)"
proof (cases p)
  case (ViaGate plat)
  from assms have "lawyers_notified (fst st)" by (simp add: fired_def)
  then show ?thesis using assms ViaGate by (simp add: gate_path_flagged)
next
  case ViaFinalization
  then show ?thesis using keepsD[OF keeps_finalization_fired assms] by simp
qed

lemma run_paths_fired: "fired D st \<Longrightarrow> fired D (run_paths w sid ps st)"
  unfolding run_paths_def
  by (induction ps arbitrary: st) (simp_all add: run_path_fired)

text \<open>
  C1. For a session record with \<open>lawyers_notified\<close> true, \<open>should_notify_lawyers\<close> answers
  \<open>should_notify = false\<close> with reason \<open>already_notified\<close>, whatever the other fields and
  the platform are; \<open>_handle_lead_finalization\<close> does not call the dispatcher; and after
  any sequence of calls to the gate path and the finalization path on that session,
  whatever the collaborators do, the dispatcher's call log is what it was and the flag is
  still set: no call at all once the flag is true.
\<close>

theorem single_fire_notification:
  "lawyers_notified sd \<Longrightarrow>
     should_notify_lawyers sd plat =
       \<lparr>should_notify = False, reason = ''already_notified'', check_score = None,
        missing_criteria = []\<rparr>
     \<and> dispatches (snd (snd (handle_lead_finalization w sid (sd, e)))) = dispatches e
     \<and> dispatches (snd (run_paths w sid paths (sd, e))) = dispatches e
     \<and> lawyers_notified (fst (run_paths w sid paths (sd, e)))"
proof -
  assume n: "lawyers_notified sd"
  then have f: "fired (dispatches e) (sd, e)" by (simp add: fired_def)
  have "fired (dispatches e) (snd (handle_lead_finalization w sid (sd, e)))"
    by (rule keepsD[OF keeps_finalization_fired f])
  moreover have "fired (dispatches e) (run_paths w sid paths (sd, e))"
    by (rule run_paths_fired[OF f])
  ultimately show ?thesis using n by (simp add: fired_def gate_already_notified)
qed

theorem single_fire_notification_witness:
  "lawyers_notified notified_session
   \<and> dispatches (snd (run_paths calm_world ''s1''
        [ViaFinalization, ViaGate ''whatsapp'', ViaFinalization]
        (notified_session, initial_env))) = []"
proof -
  have n: "lawyers_notified notified_session" by code_simp
  have d: "dispatches initial_env = []" by (simp add: initial_env_def)
  show ?thesis
    using n d single_fire_notification[OF n, of "''whatsapp''" calm_world "''s1''" initial_env
        "[ViaFinalization, ViaGate ''whatsapp'', ViaFinalization]"]
    by simp
qed

text \<open>The first finalization of a completed lead calls the dispatcher once; the second,
  on the session the first one left, does not call it again.\<close>

lemma finalization_twice_example:
  "length (dispatches (snd (run_paths calm_world ''s1'' [ViaFinalization]
       (penal_area_session, initial_env)))) = 1
   \<and> length (dispatches (snd (run_paths calm_world ''s1'' [ViaFinalization, ViaFinalization]
       (penal_area_session, initial_env)))) = 1"
  by code_simp

section \<open>Authorization from the landing page\<close>

lemma gate_path_unqualified:
  "\<not> should_notify (should_notify_lawyers (fst st) plat) \<Longrightarrow>
   notify_lawyers_if_qualified w sid plat st =
     (Inr \<lparr>notified = False, success = None,
           result_reason = reason (should_notify_lawyers (fst st) plat)\<rparr>, st)"
  by (simp add: notify_lawyers_if_qualified_def try_except_def then_do_def get_session_def
        ret_def Let_def)

lemma prepopulated_gate:
  "\<not> should_notify (should_notify_lawyers (prepopulated_session a t) ''whatsapp'')
   \<and> reason (should_notify_lawyers (prepopulated_session a t) ''whatsapp'') = ''not_qualified_yet''"
  by (simp add: should_notify_lawyers_def prepopulated_session_def Let_def)



section \<open>The entry point is total\<close>











section \<open>Unauthorized WhatsApp access\<close>



text \<open>What session retrieval does before the check, for a sender the store has never
  seen: it persists a fresh record, and the redirect is returned after that.\<close>

lemma unseen_sender_record_example:
  "store initial_env unseen_sender = None
   \<and> (case store after_first_contact unseen_sender of
         None \<Rightarrow> False
       | Some sd \<Rightarrow> current_step sd = ''greeting'' \<and> message_count sd = 0)"
  by code_simp


section \<open>Single steps of the entry point\<close>

lemma map_of_dict_set: "map_of (dict_set d k v) k' = (if k' = k then Some v else map_of d k')"
  by (induction d) auto

lemma get_or_dict_set: "get_or (dict_set d k v) k' dflt = (if k' = k then v else get_or d k' dflt)"
  by (simp add: get_or_def map_of_dict_set)

lemma step5_config:
  "\<exists>q. map_of (get_flow_steps h p) ''step5_confirmation''
        = Some \<lparr>question = q, field = Some ''confirmation'', next_step = ''completed''\<rparr>"
  by (simp add: get_flow_steps_def Let_def)

lemma finalization_aborts:
  assumes "first_name_or (get_or (lead_data sd) ''identification'' ''Cliente'') ''Cliente'' = Inr fn"
    and "length (resolved_phone sd) < 10"
  shows "handle_lead_finalization w sid (sd, e) = (Inr (phone_reprompt fn), (sd, e))"
  using assms
  by (auto simp: handle_lead_finalization_def try_except_def then_do_def get_session_def
        lift_result_def ret_def Let_def resolved_phone_def)

lemma save_current_succeeds:
  "outcome_at w (tick e) = Succeeds \<Longrightarrow>
   save_current w sid (sd, e) = (Inr (), (sd, advance (e\<lparr>store := (store e)(sid \<mapsto> sd)\<rparr>)))"
  by (simp add: save_current_def on_env_def save_user_session_def)

lemma flow_confirmation_abort:
  assumes step: "current_step sd = ''step5_confirmation''"
    and live: "\<not> session_ended sd" "\<not> first_interaction sd"
    and valid: "fst (validate_answer message ''step5_confirmation'' (platform sd))"
    and name: "first_name_or (get_or (lead_data sd) ''identification'' ''Cliente'') ''Cliente'' = Inr fn"
    and phone: "length (resolved_phone sd) < 10"
    and save: "outcome_at w (tick e) = Succeeds"
  shows "process_conversation_flow w message (sd, e) =
           (Inr (phone_reprompt fn),
            (confirmed sd message,
             advance (e\<lparr>store := (store e)(session_id sd \<mapsto> confirmed sd message)\<rparr>)))"
proof -
  obtain q where cfg: "map_of (get_flow_steps (hour_at w (tick e)) (platform sd)) ''step5_confirmation''
        = Some \<lparr>question = q, field = Some ''confirmation'', next_step = ''completed''\<rparr>"
    using step5_config by blast
  obtain ok msg where v: "validate_answer message ''step5_confirmation'' (platform sd) = (ok, msg)"
    by (cases "validate_answer message ''step5_confirmation'' (platform sd)")
  with valid have ok: "ok" by simp
  have name': "first_name_or (get_or (lead_data (confirmed sd message)) ''identification'' ''Cliente'') ''Cliente'' = Inr fn"
    using name by (simp add: confirmed_def get_or_dict_set)
  have phone': "length (resolved_phone (confirmed sd message)) < 10"
    using phone by (auto simp: confirmed_def resolved_phone_def get_or_dict_set Let_def split: if_splits)
  have adv: "advance_step w (session_id sd) message
        \<lparr>question = q, field = Some ''confirmation'', next_step = ''completed''\<rparr>
        (get_flow_steps (hour_at w (tick e)) (platform sd)) (sd, e) =
      (Inr (phone_reprompt fn),
            (confirmed sd message,
             advance (e\<lparr>store := (store e)(session_id sd \<mapsto> confirmed sd message)\<rparr>)))"
    using save finalization_aborts[OF name' phone']
    by (simp add: advance_step_def then_do_def modify_def save_current_succeeds confirmed_def)
  show ?thesis
    using step live cfg v ok adv
    by (simp add: process_conversation_flow_def try_except_def then_do_def get_session_def
          on_env_def flow_steps_now_def Let_def ret_def)
qed

lemma then_do_ret: "then_do (ret x) f = f x"
  by (rule ext) (simp add: then_do_def ret_def)

lemma then_do_get_session: "then_do get_session f st = f (fst st) st"
  by (simp add: then_do_def get_session_def)

lemma process_in_session_step:
  assumes auth: "plat = ''whatsapp'' \<longrightarrow> whatsapp_authorized sd"
    and flow: "process_conversation_flow w message (with_phone plat phone sd, e) = (Inr text, (sd3, e3))"
    and save: "outcome_at w (tick e3) = Succeeds"
  shows "process_in_session w message sid phone plat (sd, e) =
           (Inr (flow_result plat text (counted sd3 (tick e3))),
            (counted sd3 (tick e3),
             advance (e3\<lparr>store := (store e3)(sid \<mapsto> counted sd3 (tick e3))\<rparr>)))"
proof -
  have p: "(case phone of
           Some p \<Rightarrow>
             if plat = ''whatsapp'' \<and> p \<noteq> [] then
               modify (\<lambda>s. s\<lparr>phone_number := Str p,
                              lead_data := dict_set (lead_data s) ''phone'' p\<rparr>)
             else ret ()
         | None \<Rightarrow> ret ()) (sd, e) = (Inr (), (with_phone plat phone sd, e))"
    by (cases phone) (simp_all add: with_phone_def modify_def ret_def)
  have rest: "then_do
            (case phone of
               Some p \<Rightarrow>
                 if plat = ''whatsapp'' \<and> p \<noteq> [] then
                   modify (\<lambda>s. s\<lparr>phone_number := Str p,
                                  lead_data := dict_set (lead_data s) ''phone'' p\<rparr>)
                 else ret ()
             | None \<Rightarrow> ret ()) (\<lambda>_.
          then_do (process_conversation_flow w message) (\<lambda>text.
          then_do (on_env now) (\<lambda>t.
          then_do (modify (\<lambda>s. s\<lparr>message_count := message_count s + 1, last_updated := t\<rparr>)) (\<lambda>_.
          then_do (save_current w sid) (\<lambda>_.
          then_do get_session (\<lambda>final.
          ret (flow_result plat text final))))))) (sd, e) =
           (Inr (flow_result plat text (counted sd3 (tick e3))),
            (counted sd3 (tick e3),
             advance (e3\<lparr>store := (store e3)(sid \<mapsto> counted sd3 (tick e3))\<rparr>)))"
    by (simp add: then_do_def p flow on_env_def now_def modify_def get_session_def ret_def
          save_current_succeeds[OF save] counted_def)
  from auth have skip: "\<not> (plat = ''whatsapp'' \<and> \<not> whatsapp_authorized sd \<and> lead_data sd = [])"
    "\<not> (plat = ''whatsapp'' \<and> lead_data sd \<noteq> [] \<and> \<not> whatsapp_authorized sd)"
    by auto
  show ?thesis
    unfolding process_in_session_def
    by (simp only: then_do_get_session fst_conv skip if_False then_do_ret) (rule rest)
qed

lemma process_message_via_session:
  assumes "sid \<noteq> []" "strip sid \<noteq> []"
    and "get_or_create_session w sid plat phone e = (Inr sd, e1)"
    and "process_in_session w message sid phone plat (sd, e1) = (Inr res, (sdf, e2))"
  shows "process_message w message sid phone plat e = (Inr res, e2)"
  using assms
  by (simp add: process_message_def try_except_def then_do_def in_session_def)

lemma get_or_create_live:
  assumes "outcome_at w (tick e) \<noteq> Raises" "store e sid = Some old"
    "\<not> session_ended old" "\<not> flow_completed old"
  shows "get_or_create_session w sid plat phone e = (Inr (set_phone phone old), advance e)"
  using assms
  by (simp add: get_or_create_session_def then_do_def get_user_session_def ret_def split: outcome.splits)

lemma get_or_create_terminal:
  assumes "outcome_at w (tick e) \<noteq> Raises" "store e sid = Some old"
    "session_ended old \<or> flow_completed old" "outcome_at w (Suc (tick e)) = Succeeds"
  shows "get_or_create_session w sid plat phone e =
     (Inr (reset_session old sid plat phone (Suc (tick e))),
      advance ((advance e)\<lparr>store := (store e)(sid \<mapsto> reset_session old sid plat phone (Suc (tick e)))\<rparr>))"
  using assms
  by (auto simp: get_or_create_session_def then_do_def get_user_session_def ret_def now_def
        save_user_session_def advance_def Let_def split: outcome.splits)

lemma flow_first_interaction:
  assumes "first_interaction sd" "\<not> session_ended sd" "outcome_at w (tick e) = Succeeds"
  shows "process_conversation_flow w message (sd, e) =
     (Inr (question_of (get_flow_steps (hour_at w (tick e)) (platform sd)) ''greeting'' @ nl @ nl
           @ question_of (get_flow_steps (hour_at w (tick e)) (platform sd)) ''step1_name''),
      (sd\<lparr>first_interaction := False, current_step := ''step1_name''\<rparr>,
       advance (e\<lparr>store := (store e)(session_id sd \<mapsto> sd\<lparr>first_interaction := False, current_step := ''step1_name''\<rparr>)\<rparr>)))"
  using assms
  by (simp add: process_conversation_flow_def try_except_def then_do_def get_session_def
        on_env_def flow_steps_now_def Let_def ret_def modify_def save_current_succeeds)

lemma calm_succeeds [simp]: "outcome_at calm_world t = Succeeds"
  by (simp add: calm_world_def)

lemma short_sender_nonblank: "short_sender \<noteq> []" "strip short_sender \<noteq> []"
  by code_simp+

section \<open>Finalization without a usable phone number\<close>

text \<open>
  C5, what the code does. An authorized WhatsApp sender with the five-digit number
  \<open>12345\<close> has answered every question; at the confirmation \<open>sim\<close> the flow
  controller records \<open>current_step = completed\<close> and \<open>flow_completed = true\<close> and
  persists them, and only then finalization finds no ten-character phone and returns the
  re-prompt. The session is marked complete in the returned record and in the store. The
  answer to the re-prompt then meets a completed session: session retrieval replaces it
  by a reset record with empty \<open>lead_data\<close>, and the phone number is never recollected.
\<close>

theorem finalization_abort_marks_completed:
  "(case process_message calm_world ''sim'' short_sender (Some short_sender) ''whatsapp''
           at_confirmation of
      (r, e') \<Rightarrow>
        (case r of
           Inl err \<Rightarrow> False
         | Inr res \<Rightarrow> response res = phone_reprompt ''Ana'' \<and> out_flow_completed res
                       \<and> out_current_step res = Some ''completed'')
        \<and> (case store e' short_sender of
              None \<Rightarrow> False
            | Some sd \<Rightarrow> flow_completed sd \<and> current_step sd = ''completed'')
        \<and> (case fst (get_or_create_session calm_world short_sender ''whatsapp''
                        (Some short_sender) e') of
              Inl err \<Rightarrow> False
            | Inr sd \<Rightarrow> lead_data sd = [] \<and> current_step sd = ''greeting''))"
proof -
  let ?e0 = at_confirmation
  let ?sd1 = "set_phone (Some short_sender) confirmation_record"
  let ?sd2 = confirmation_in_hand
  let ?sd3 = "confirmed ?sd2 ''sim''"
  let ?e3 = "advance ((advance ?e0)\<lparr>store := (store (advance ?e0))(session_id ?sd2 \<mapsto> ?sd3)\<rparr>)"
  let ?final = "counted ?sd3 (tick ?e3)"
  let ?e4 = "advance (?e3\<lparr>store := (store ?e3)(short_sender \<mapsto> ?final)\<rparr>)"
  have s0: "store ?e0 short_sender = Some confirmation_record"
    by (simp add: at_confirmation_def)
  have live: "\<not> session_ended confirmation_record" "\<not> flow_completed confirmation_record"
    by (simp_all add: confirmation_record_def)
  have g: "get_or_create_session calm_world short_sender ''whatsapp'' (Some short_sender) ?e0
             = (Inr ?sd1, advance ?e0)"
    by (rule get_or_create_live[OF _ s0 live]) simp
  have a1: "current_step ?sd2 = ''step5_confirmation''"
    and a2: "\<not> session_ended ?sd2" and a3: "\<not> first_interaction ?sd2"
    and a4: "fst (validate_answer ''sim'' ''step5_confirmation'' (platform ?sd2))"
    and a5: "first_name_or (get_or (lead_data ?sd2) ''identification'' ''Cliente'') ''Cliente'' = Inr ''Ana''"
    and a6: "length (resolved_phone ?sd2) < 10"
    and a7: "''whatsapp'' = ''whatsapp'' \<longrightarrow> whatsapp_authorized ?sd1"
    by code_simp+
  have f: "process_conversation_flow calm_world ''sim''
             (with_phone ''whatsapp'' (Some short_sender) ?sd1, advance ?e0)
           = (Inr (phone_reprompt ''Ana''), (?sd3, ?e3))"
    using flow_confirmation_abort[OF a1 a2 a3 a4 a5 a6, of calm_world "advance ?e0"]
    by (simp add: confirmation_in_hand_def)
  have p: "process_in_session calm_world ''sim'' short_sender (Some short_sender) ''whatsapp''
             (?sd1, advance ?e0)
           = (Inr (flow_result ''whatsapp'' (phone_reprompt ''Ana'') ?final), (?final, ?e4))"
    by (rule process_in_session_step[OF a7 f]) simp
  have m: "process_message calm_world ''sim'' short_sender (Some short_sender) ''whatsapp'' ?e0
           = (Inr (flow_result ''whatsapp'' (phone_reprompt ''Ana'') ?final), ?e4)"
    by (rule process_message_via_session[OF short_sender_nonblank g p])
  have fin: "flow_completed ?final" "current_step ?final = ''completed''"
    by (simp_all add: counted_def confirmed_def)
  have s4: "store ?e4 short_sender = Some ?final"
    by (simp add: advance_def)
  have r: "get_or_create_session calm_world short_sender ''whatsapp'' (Some short_sender) ?e4
      = (Inr (reset_session ?final short_sender ''whatsapp'' (Some short_sender) (Suc (tick ?e4))),
         advance ((advance ?e4)\<lparr>store := (store ?e4)(short_sender \<mapsto>
            reset_session ?final short_sender ''whatsapp'' (Some short_sender) (Suc (tick ?e4)))\<rparr>))"
    by (rule get_or_create_terminal[OF _ s4]) (simp_all add: fin)
  show ?thesis
    unfolding m prod.case
    by (simp add: r s4 fin flow_result_def phone_reprompt_def reset_session_def Let_def)
qed

section \<open>Reset of a terminal session\<close>

lemma reset_session_fields:
  "lead_data (reset_session old sid plat phone t) = []"
  "current_step (reset_session old sid plat phone t) = ''greeting''"
  "first_interaction (reset_session old sid plat phone t)"
  "reset_count (reset_session old sid plat phone t) = reset_count old + 1"
  "\<not> flow_completed (reset_session old sid plat phone t)"
  "\<not> session_ended (reset_session old sid plat phone t)"
  "session_id (reset_session old sid plat phone t) = sid"
  "platform (reset_session old sid plat phone t) = plat"
  "message_count (reset_session old sid plat phone t) = 0"
  "whatsapp_authorized (reset_session old sid plat phone t) = (plat = ''whatsapp'' \<and> whatsapp_authorized old)"
  "authorization_source (reset_session old sid plat phone t) = authorization_source old"
  by (simp_all add: reset_session_def Let_def)

lemma reset_session_phone:
  "plat = ''whatsapp'' \<Longrightarrow> phone_number old \<noteq> Absent \<Longrightarrow>
     phone_number (reset_session old sid plat phone t) = phone_number old"
  by (cases "phone_number old") (simp_all add: reset_session_def Let_def)

lemma with_phone_fields:
  "current_step (with_phone plat phone sd) = current_step sd"
  "first_interaction (with_phone plat phone sd) = first_interaction sd"
  "reset_count (with_phone plat phone sd) = reset_count sd"
  "flow_completed (with_phone plat phone sd) = flow_completed sd"
  "session_ended (with_phone plat phone sd) = session_ended sd"
  "session_id (with_phone plat phone sd) = session_id sd"
  "platform (with_phone plat phone sd) = platform sd"
  "message_count (with_phone plat phone sd) = message_count sd"
  "whatsapp_authorized (with_phone plat phone sd) = whatsapp_authorized sd"
  "authorization_source (with_phone plat phone sd) = authorization_source sd"
  by (simp_all add: with_phone_def split: option.splits)

text \<open>
  C4. When the stored record of a session has \<open>flow_completed\<close> or \<open>session_ended\<close>
  set and the store answers, \<open>process_message\<close> begins by replacing it, in hand and in
  the store, with a newly created record: empty \<open>lead_data\<close>, step \<open>greeting\<close>,
  \<open>first_interaction\<close> true, \<open>reset_count\<close> one more than before, and on WhatsApp the
  old \<open>whatsapp_authorized\<close>, \<open>authorization_source\<close> and \<open>phone_number\<close>. The
  message is then handled on that new record: unless the channel is WhatsApp and
  unauthorized, the first-interaction handling leaves it at \<open>step1_name\<close> with
  \<open>message_count = 1\<close>, and that is the record the store holds afterwards; the old
  terminal record is not advanced.
\<close>

theorem reset_on_terminal:
  assumes nb: "sid \<noteq> []" "strip sid \<noteq> []"
    and st: "store e sid = Some old"
    and fin: "flow_completed old \<or> session_ended old"
    and calm: "\<forall>t. outcome_at w t = Succeeds"
  shows "\<exists>n e1. get_or_create_session w sid plat phone e = (Inr n, e1)
          \<and> store e1 sid = Some n
          \<and> lead_data n = [] \<and> current_step n = ''greeting'' \<and> first_interaction n
          \<and> reset_count n = reset_count old + 1
          \<and> \<not> flow_completed n \<and> \<not> session_ended n
          \<and> (plat = ''whatsapp'' \<longrightarrow>
                whatsapp_authorized n = whatsapp_authorized old
                \<and> authorization_source n = authorization_source old
                \<and> (phone_number old \<noteq> Absent \<longrightarrow> phone_number n = phone_number old))
          \<and> (plat \<noteq> ''whatsapp'' \<or> whatsapp_authorized old \<longrightarrow>
                (\<exists>res e2 t. process_message w message sid phone plat e = (Inr res, e2)
                   \<and> out_current_step res = Some ''step1_name''
                   \<and> out_message_count res = 1
                   \<and> store e2 sid =
                        Some (counted ((with_phone plat phone n)
                                \<lparr>first_interaction := False, current_step := ''step1_name''\<rparr>) t)))"
proof -
  let ?n = "reset_session old sid plat phone (Suc (tick e))"
  let ?e1 = "advance ((advance e)\<lparr>store := (store e)(sid \<mapsto> ?n)\<rparr>)"
  from calm have ok: "outcome_at w t = Succeeds" for t by simp
  have g: "get_or_create_session w sid plat phone e = (Inr ?n, ?e1)"
    using fin by (intro get_or_create_terminal[OF _ st]) (auto simp: ok)
  have s1: "store ?e1 sid = Some ?n" by (simp add: advance_def)
  have pm: "\<exists>res e2 t. process_message w message sid phone plat e = (Inr res, e2)
                   \<and> out_current_step res = Some ''step1_name''
                   \<and> out_message_count res = 1
                   \<and> store e2 sid =
                        Some (counted ((with_phone plat phone ?n)
                                \<lparr>first_interaction := False, current_step := ''step1_name''\<rparr>) t)"
    if auth: "plat \<noteq> ''whatsapp'' \<or> whatsapp_authorized old"
  proof -
    let ?sd2 = "with_phone plat phone ?n"
    let ?sd3 = "?sd2\<lparr>first_interaction := False, current_step := ''step1_name''\<rparr>"
    let ?e3 = "advance (?e1\<lparr>store := (store ?e1)(session_id ?sd2 \<mapsto> ?sd3)\<rparr>)"
    let ?final = "counted ?sd3 (tick ?e3)"
    let ?e4 = "advance (?e3\<lparr>store := (store ?e3)(sid \<mapsto> ?final)\<rparr>)"
    let ?text = "question_of (get_flow_steps (hour_at w (tick ?e1)) (platform ?sd2)) ''greeting'' @ nl @ nl
           @ question_of (get_flow_steps (hour_at w (tick ?e1)) (platform ?sd2)) ''step1_name''"
    have a: "plat = ''whatsapp'' \<longrightarrow> whatsapp_authorized ?n"
      using auth by (simp add: reset_session_fields)
    have f: "process_conversation_flow w message (?sd2, ?e1) = (Inr ?text, (?sd3, ?e3))"
      by (rule flow_first_interaction) (simp_all add: with_phone_fields reset_session_fields ok)
    have p: "process_in_session w message sid phone plat (?n, ?e1)
           = (Inr (flow_result plat ?text ?final), (?final, ?e4))"
      by (rule process_in_session_step[OF a f ok])
    have m: "process_message w message sid phone plat e = (Inr (flow_result plat ?text ?final), ?e4)"
      by (rule process_message_via_session[OF nb g p])
    have "out_current_step (flow_result plat ?text ?final) = Some ''step1_name''"
      "out_message_count (flow_result plat ?text ?final) = 1"
      by (simp_all add: flow_result_def counted_def with_phone_fields reset_session_fields)
    moreover have "store ?e4 sid = Some ?final" by (simp add: advance_def)
    ultimately show ?thesis using m by blast
  qed
  show ?thesis
    using g s1 pm reset_session_phone[of plat old sid phone "Suc (tick e)"]
    by (intro exI[of _ ?n] exI[of _ ?e1]) (simp add: reset_session_fields)
qed

theorem reset_on_terminal_witness:
  "short_sender \<noteq> [] \<and> strip short_sender \<noteq> []
   \<and> store at_completed short_sender = Some completed_record
   \<and> flow_completed completed_record
   \<and> (\<forall>t. outcome_at calm_world t = Succeeds)
   \<and> (\<exists>n e1. get_or_create_session calm_world short_sender ''whatsapp'' (Some short_sender) at_completed
                 = (Inr n, e1)
          \<and> store e1 short_sender = Some n \<and> lead_data n = [] \<and> reset_count n = 1
          \<and> whatsapp_authorized n \<and> phone_number n = Str ''12345'')"
proof -
  have s: "store at_completed short_sender = Some completed_record"
    by (simp add: at_completed_def)
  have f: "flow_completed completed_record \<or> session_ended completed_record"
    by (simp add: completed_record_def confirmed_def)
  have c: "\<forall>t. outcome_at calm_world t = Succeeds" by simp
  have o: "reset_count completed_record = 0" "whatsapp_authorized completed_record"
    "phone_number completed_record = Str ''12345''" "flow_completed completed_record"
    by (simp_all add: completed_record_def confirmed_def confirmation_record_def)
  from reset_on_terminal[OF short_sender_nonblank s f c, of "''whatsapp''" "Some short_sender" "''oi''"]
  obtain n e1 where
    "get_or_create_session calm_world short_sender ''whatsapp'' (Some short_sender) at_completed = (Inr n, e1)"
    "store e1 short_sender = Some n" "lead_data n = []" "reset_count n = reset_count completed_record + 1"
    "whatsapp_authorized n = whatsapp_authorized completed_record"
    "phone_number completed_record \<noteq> Absent \<longrightarrow> phone_number n = phone_number completed_record"
    by auto
  then show ?thesis using short_sender_nonblank s o c by auto
qed

section \<open>The completed flag and the current step\<close>

lemma live_step_consistent: "live sd \<Longrightarrow> step_consistent sd" by (simp add: live_def)
lemma holding_live_step_consistent: "holding live st \<Longrightarrow> holding step_consistent st" by (simp add: holding_def live_def)

lemma triple_of_keeps:
  assumes "\<And>s. I s \<Longrightarrow> J s" "keeps I m" shows "triple I m (\<lambda>x. J) J"
  using assms(2) unfolding keeps_def by (rule triple_weaken) (auto intro: assms(1))

lemma triple_bind_keeps:
  assumes ij: "\<And>s. I s \<Longrightarrow> J s" and m: "keeps I m" and f: "\<And>x. triple I (f x) (\<lambda>x. J) J"
  shows "triple I (then_do m f) (\<lambda>x. J) J"
proof (rule triple_bind[where R = "\<lambda>x. I"])
  show "triple I m (\<lambda>x. I) J"
    using m unfolding keeps_def by (rule triple_weaken) (auto intro: ij)
qed (rule f)

lemma triple_bind_then_keeps:
  assumes "triple I m (\<lambda>x. J) J" and "\<And>x. keeps J (f x)"
  shows "triple I (then_do m f) (\<lambda>x. J) J"
  using assms unfolding keeps_def by (rule triple_bind)

lemma triple_try_keeps:
  assumes "triple I m (\<lambda>x. J) J" and "\<And>err. keeps J (h err)"
  shows "triple I (try_except m h) (\<lambda>x. J) J"
  using assms unfolding keeps_def by (rule triple_try)

lemma triple_if: "(c \<Longrightarrow> triple P a Q E) \<Longrightarrow> (\<not> c \<Longrightarrow> triple P b Q E) \<Longrightarrow> triple P (if c then a else b) Q E"
  by simp

lemma keeps_case_option:
  "(x = None \<Longrightarrow> keeps I a) \<Longrightarrow> (\<And>y. x = Some y \<Longrightarrow> keeps I (b y)) \<Longrightarrow>
   keeps I (case x of None \<Rightarrow> a | Some y \<Rightarrow> b y)"
  by (cases x) simp_all

lemma triple_case_option:
  "(x = None \<Longrightarrow> triple P a Q E) \<Longrightarrow> (\<And>y. x = Some y \<Longrightarrow> triple P (b y) Q E) \<Longrightarrow>
   triple P (case x of None \<Rightarrow> a | Some y \<Rightarrow> b y) Q E"
  by (cases x) simp_all

lemma keeps_on_env_holding:
  assumes "\<And>e. store (snd (m e)) = store e"
  shows "keeps (holding P) (on_env m)"
  unfolding keeps_def triple_def
proof (intro allI impI)
  fix st :: pstate assume h: "holding P st"
  obtain r e' where m: "m (snd st) = (r, e')" by (cases "m (snd st)")
  with assms[of "snd st"] have "store e' = store (snd st)" by simp
  with h m show "case on_env m st of (Inl err, s') \<Rightarrow> holding P s' | (Inr x, s') \<Rightarrow> holding P s'"
    by (cases r) (simp_all add: on_env_def holding_def store_inv_def)
qed

lemma store_advance [simp]: "store (advance e) = store e" by (simp add: advance_def)
lemma store_now: "store (snd (now e)) = store e" by (simp add: now_def)
lemma store_notify: "store (snd (notify_lawyers_of_new_lead w d e)) = store e"
  by (simp add: notify_lawyers_of_new_lead_def Let_def split: outcome.splits)
lemma store_send: "store (snd (send_text_message w a b e)) = store e"
  by (simp add: send_text_message_def Let_def split: outcome.splits)
lemma store_save_lead: "store (snd (save_lead_data w a e)) = store e"
  by (simp add: save_lead_data_def split: outcome.splits)
lemma store_flow_steps_now: "store (snd (flow_steps_now w p e)) = store e"
  by (simp add: flow_steps_now_def)
lemma store_greeting_now: "store (snd (greeting_now w e)) = store e"
  by (simp add: greeting_now_def)

lemmas store_frames = store_now store_notify store_send store_save_lead store_flow_steps_now
  store_greeting_now

lemma keeps_save_current_holding:
  assumes "\<And>sd. P sd \<Longrightarrow> step_consistent sd"
  shows "keeps (holding P) (save_current w sid)"
  unfolding keeps_def triple_def
proof (intro allI impI)
  fix st :: pstate assume h: "holding P st"
  then have "step_consistent (fst st)" using assms by (simp add: holding_def)
  with h show "case save_current w sid st of (Inl err, s') \<Rightarrow> holding P s' | (Inr x, s') \<Rightarrow> holding P s'"
    by (cases "outcome_at w (tick (snd st))")
       (auto simp: save_current_def on_env_def save_user_session_def holding_def store_inv_def)
qed

lemma keeps_modify_holding:
  "(\<And>sd. P sd \<Longrightarrow> P (f sd)) \<Longrightarrow> keeps (holding P) (modify f)"
  by (rule keeps_modify) (simp add: holding_def)

lemma triple_modify_holding:
  "(\<And>sd. P sd \<Longrightarrow> Q (f sd)) \<Longrightarrow> triple (holding P) (modify f) (\<lambda>x. holding Q) (holding Q)"
  by (simp add: triple_def modify_def holding_def)

lemmas keeps_intros = keeps_try keeps_bind keeps_get_session keeps_if keeps_ret keeps_lift_result
  keeps_case_option

text \<open>Finalization and the gate path leave both flags alone.\<close>

lemma keeps_finalization_notify: "keeps (holding step_consistent) (finalization_notify w sid d)"
  unfolding finalization_notify_def
  by (intro keeps_intros keeps_on_env_holding store_frames keeps_modify_holding
        keeps_save_current_holding) (simp_all add: step_consistent_def)

lemma keeps_finalization_save_lead: "keeps (holding step_consistent) (finalization_save_lead w p)"
  unfolding finalization_save_lead_def
  by (intro keeps_intros keeps_on_env_holding store_frames)

lemma keeps_finalization_whatsapp: "keeps (holding step_consistent) (finalization_whatsapp w plat u a p)"
  unfolding finalization_whatsapp_def
  by (intro keeps_intros keeps_on_env_holding store_frames)

lemma keeps_finalization_proceed: "keeps (holding step_consistent) (finalization_proceed w sid plat u f a p)"
  unfolding finalization_proceed_def Let_def
  by (intro keeps_intros keeps_on_env_holding store_frames keeps_modify_holding
        keeps_save_current_holding keeps_finalization_notify keeps_finalization_save_lead
        keeps_finalization_whatsapp) (simp_all add: step_consistent_def)

lemma keeps_finalization: "keeps (holding step_consistent) (handle_lead_finalization w sid)"
  unfolding handle_lead_finalization_def Let_def
  by (intro keeps_intros keeps_finalization_proceed)

lemma keeps_gate_path: "keeps (holding step_consistent) (notify_lawyers_if_qualified w sid plat)"
  unfolding notify_lawyers_if_qualified_def Let_def
  by (intro keeps_intros keeps_on_env_holding store_frames keeps_modify_holding
        keeps_save_current_holding) (simp_all add: step_consistent_def)

lemma bind_live:
  assumes "keeps (holding live) m"
    and "\<And>x. triple (holding live) (f x) (\<lambda>x. holding step_consistent) (holding step_consistent)"
  shows "triple (holding live) (then_do m f) (\<lambda>x. holding step_consistent) (holding step_consistent)"
  by (rule triple_bind_keeps[where I = "holding live"]) (simp_all add: holding_live_step_consistent assms)

lemma of_live:
  assumes "keeps (holding live) m"
  shows "triple (holding live) m (\<lambda>x. holding step_consistent) (holding step_consistent)"
  by (rule triple_of_keeps[where I = "holding live"]) (simp_all add: holding_live_step_consistent assms)

lemma live_step: "live sd \<Longrightarrow> nx \<noteq> ''completed'' \<Longrightarrow> live (sd\<lparr>current_step := nx\<rparr>)"
  by (simp add: live_def step_consistent_def)

lemma keeps_collect_phone: "keeps (holding live) (collect_phone w sid plat message steps)"
  unfolding collect_phone_def
  by (intro keeps_intros keeps_modify_holding keeps_save_current_holding live_step_consistent)
     (auto simp: live_def step_consistent_def Let_def split: pyval.splits)

lemma triple_advance_step:
  "triple (holding live) (advance_step w sid message cfg steps) (\<lambda>x. holding step_consistent) (holding step_consistent)"
  unfolding advance_step_def
proof (rule bind_live)
  show "keeps (holding live) (modify (\<lambda>s. case field cfg of None \<Rightarrow> s
      | Some field_name \<Rightarrow> if field_name \<noteq> [] then s\<lparr>lead_data := dict_set (lead_data s) field_name (strip message)\<rparr> else s))"
    by (rule keeps_modify_holding) (auto simp: live_def step_consistent_def split: option.splits)
next
  fix u :: unit
  show "triple (holding live)
     (if next_step cfg = ''completed''
      then then_do (modify (\<lambda>s. s\<lparr>current_step := ''completed'', flow_completed := True\<rparr>))
            (\<lambda>_. then_do (save_current w sid) (\<lambda>_. handle_lead_finalization w sid))
      else then_do (modify (\<lambda>s. s\<lparr>current_step := next_step cfg\<rparr>))
            (\<lambda>_. then_do (save_current w sid)
                  (\<lambda>_. then_do get_session
                        (\<lambda>cur. ret (interpolate_message (question_of steps (next_step cfg)) (lead_data cur))))))
     (\<lambda>x. holding step_consistent) (holding step_consistent)"
  proof (rule triple_if)
    show "triple (holding live)
       (then_do (modify (\<lambda>s. s\<lparr>current_step := ''completed'', flow_completed := True\<rparr>))
            (\<lambda>_. then_do (save_current w sid) (\<lambda>_. handle_lead_finalization w sid)))
       (\<lambda>x. holding step_consistent) (holding step_consistent)"
      by (rule triple_bind_then_keeps, rule triple_modify_holding)
         (auto simp: step_consistent_def intro!: keeps_intros keeps_save_current_holding keeps_finalization)
  next
    assume n: "next_step cfg \<noteq> ''completed''"
    have "keeps (holding live)
       (then_do (modify (\<lambda>s. s\<lparr>current_step := next_step cfg\<rparr>))
            (\<lambda>_. then_do (save_current w sid)
                  (\<lambda>_. then_do get_session
                        (\<lambda>cur. ret (interpolate_message (question_of steps (next_step cfg)) (lead_data cur))))))"
      by (intro keeps_intros keeps_modify_holding keeps_save_current_holding live_step_consistent live_step n)
    then show "triple (holding live)
       (then_do (modify (\<lambda>s. s\<lparr>current_step := next_step cfg\<rparr>))
            (\<lambda>_. then_do (save_current w sid)
                  (\<lambda>_. then_do get_session
                        (\<lambda>cur. ret (interpolate_message (question_of steps (next_step cfg)) (lead_data cur))))))
       (\<lambda>x. holding step_consistent) (holding step_consistent)"
      by (rule of_live)
  qed
qed

lemma triple_flow:
  "triple (holding live) (process_conversation_flow w message) (\<lambda>x. holding step_consistent) (holding step_consistent)"
  unfolding process_conversation_flow_def Let_def case_prod_beta
  apply (rule triple_try_keeps)
   apply ((rule triple_advance_step triple_if triple_case_option bind_live
          | rule of_live
          | rule keeps_collect_phone
          | intro keeps_intros keeps_modify_holding keeps_save_current_holding
              keeps_on_env_holding store_frames
          | fastforce simp: live_def step_consistent_def)+)
  done

lemma triple_process_in_session:
  "triple (holding live) (process_in_session w message sid phone plat)
     (\<lambda>x. holding step_consistent) (holding step_consistent)"
  unfolding process_in_session_def
  apply (rule bind_live)
   apply (rule keeps_get_session)
  apply (rule triple_if)
   apply (rule of_live)
   apply (rule keeps_ret)
  apply (rule bind_live)
   apply ((intro keeps_intros keeps_modify_holding keeps_save_current_holding
          | fastforce simp: live_def step_consistent_def)+)[1]
  apply (rule bind_live)
   apply ((intro keeps_intros keeps_modify_holding keeps_save_current_holding
          | fastforce simp: live_def step_consistent_def)+)[1]
  apply (rule triple_bind_then_keeps)
   apply (rule triple_flow)
  apply ((intro keeps_intros keeps_modify_holding keeps_save_current_holding
          keeps_on_env_holding store_frames
         | fastforce simp: live_def step_consistent_def)+)
  done

lemma triple_get_or_create:
  "triple store_inv (get_or_create_session w sid plat phone)
     (\<lambda>sd e. live sd \<and> store_inv e) store_inv"
  unfolding triple_def
proof (intro allI impI)
  fix e assume s: "store_inv e"
  have f: "live (fresh_session sid plat t)" "live (set_phone phone (fresh_session sid plat t))" for t
    by (auto simp: live_def step_consistent_def fresh_session_def set_phone_def split: option.splits)
  have r: "live (reset_session old sid plat phone t)" for old t
    by (simp add: live_def step_consistent_def reset_session_def Let_def)
  have o: "live (set_phone phone old)"
    if "store e sid = Some old" "\<not> session_ended old" "\<not> flow_completed old" for old
    using s that by (auto simp: store_inv_def live_def step_consistent_def set_phone_def split: option.splits)
  have up: "store_inv (advance ((advance e)\<lparr>store := (store e)(sid \<mapsto> sd)\<rparr>))" if "live sd" for sd
    using s that by (auto simp: store_inv_def live_def advance_def)
  have adv: "store_inv (advance (advance e))" "store_inv (advance e)"
    using s by (auto simp: store_inv_def advance_def)
  show "case get_or_create_session w sid plat phone e of
          (Inl err, s') \<Rightarrow> store_inv s' | (Inr sd, s') \<Rightarrow> live sd \<and> store_inv s'"
    using f r o up adv
    by (auto simp: get_or_create_session_def then_do_def get_user_session_def now_def ret_def
          save_user_session_def Let_def split: outcome.splits option.splits)
qed

lemma triple_in_session:
  assumes "triple (holding P) m (\<lambda>x. holding Q) (holding Q)"
  shows "triple (\<lambda>e. P sd \<and> store_inv e) (in_session sd m) (\<lambda>x. store_inv) store_inv"
  unfolding triple_def
proof (intro allI impI)
  fix e assume p: "P sd \<and> store_inv e"
  obtain r st' where m: "m (sd, e) = (r, st')" by (cases "m (sd, e)")
  from p have h: "holding P (sd, e)" by (simp add: holding_def)
  note assms[unfolded triple_def, rule_format, OF h]
  with m have "holding Q st'" by (cases r) simp_all
  with m show "case in_session sd m e of (Inl err, s') \<Rightarrow> store_inv s' | (Inr x, s') \<Rightarrow> store_inv s'"
    by (cases r) (simp_all add: in_session_def holding_def)
qed

lemma keeps_process_message: "keeps store_inv (process_message w message sid phone plat)"
  unfolding process_message_def
proof (rule keeps_try)
  show "keeps store_inv
     (if sid = [] \<or> strip sid = []
      then ret (early_result ''no_session''
                 ''Para continuar, voce precisa gerar sua ficha na nossa landing page.'')
      else then_do (get_or_create_session w sid plat phone)
            (\<lambda>sd. in_session sd (process_in_session w message sid phone plat)))"
  proof (rule keeps_if)
    show "keeps store_inv
       (then_do (get_or_create_session w sid plat phone)
            (\<lambda>sd. in_session sd (process_in_session w message sid phone plat)))"
      unfolding keeps_def
      by (rule triple_bind[OF triple_get_or_create])
         (rule triple_in_session[OF triple_process_in_session])
  qed (rule keeps_ret)
next
  fix err
  show "keeps store_inv (then_do (greeting_now w) (\<lambda>g. ret (early_result ''orchestration_error''
          (if g = [] then ''Ola! Como posso ajuda-lo?'' else g))))"
    by (simp add: keeps_def triple_def then_do_def greeting_now_def ret_def)
qed

lemma keeps_save_env: "step_consistent sd \<Longrightarrow> keeps store_inv (save_user_session w sid sd)"
  by (auto simp: keeps_def triple_def save_user_session_def store_inv_def advance_def
      split: outcome.splits)

lemma keeps_now_env: "keeps store_inv now"
  by (simp add: keeps_def triple_def now_def)

lemma keeps_authorization: "keeps store_inv (handle_whatsapp_authorization w a)"
proof -
  have p: "step_consistent (prepopulated_session a t)" for t
    by (simp add: step_consistent_def prepopulated_session_def)
  have n: "step_consistent (authorized_session a t)" for t
    by (simp add: step_consistent_def authorized_session_def fresh_session_def)
  have g: "keeps store_inv (in_session (prepopulated_session a t) (notify_lawyers_if_qualified w sid ''whatsapp''))" for t sid
    using triple_in_session[OF keeps_gate_path[unfolded keeps_def], of "prepopulated_session a t" w sid "''whatsapp''"] p[of t]
    unfolding keeps_def triple_def by simp
  have get: "triple store_inv (get_user_session w sid)
      (\<lambda>r e. store_inv e \<and> (\<forall>sd. r = Some sd \<longrightarrow> step_consistent sd)) store_inv" for sid
    by (auto simp: triple_def get_user_session_def store_inv_def advance_def split: outcome.splits)
  have upd: "step_consistent sd \<Longrightarrow> step_consistent (sd\<lparr>whatsapp_authorized := True, authorization_source := s\<rparr>)" for sd s
    by (simp add: step_consistent_def)
  show ?thesis
    unfolding handle_whatsapp_authorization_def Let_def
    apply (rule keeps_try)
     apply (rule keeps_if)
      apply (intro keeps_bind keeps_now_env keeps_save_env p g keeps_ret)
     apply (unfold keeps_def)
     apply (rule triple_bind[OF get])
     apply (rule triple_case_option)
      apply (fold keeps_def)
      apply (rule triple_weaken[where P' = store_inv and Q' = "\<lambda>x. store_inv" and E' = store_inv])
         apply (fold keeps_def)
         apply (intro keeps_bind keeps_now_env keeps_save_env n keeps_ret)
        apply simp_all[3]
     apply (simp add: triple_def then_do_def save_user_session_def ret_def split: outcome.splits)
     apply (auto simp: store_inv_def step_consistent_def advance_def)[1]
    apply (rule keeps_ret)
    done
qed

lemma keeps_end_session: "keeps store_inv (end_session w sid)"
  by (auto simp: keeps_def triple_def end_session_def try_except_def then_do_def
        get_user_session_def now_def save_user_session_def ret_def store_inv_def step_consistent_def
        advance_def split: outcome.splits option.splits)

lemma run_call_inv: "store_inv e \<Longrightarrow> store_inv (run_call w c e)"
  by (cases c) (auto dest: keepsD[OF keeps_process_message] keepsD[OF keeps_authorization]
      keepsD[OF keeps_end_session])

lemma run_calls_inv: "store_inv e \<Longrightarrow> store_inv (run_calls w calls e)"
  unfolding run_calls_def by (induction calls arbitrary: e) (simp_all add: run_call_inv)

lemma initial_inv: "store_inv initial_env"
  by (simp add: store_inv_def initial_env_def)


lemma authorization_stores:
  assumes "user_data a \<noteq> []" "auth_source a = ''landing_chat''" "outcome_at w (tick e) = Succeeds"
  shows "handle_whatsapp_authorization w a e =
           (Inr ''authorization_processed'',
            advance (e\<lparr>store := (store e)(auth_session_id a \<mapsto> prepopulated_session a (tick e))\<rparr>))"
proof -
  have g: "notify_lawyers_if_qualified w sid ''whatsapp'' (prepopulated_session a t', e') =
      (Inr \<lparr>notified = False, success = None, result_reason = ''not_qualified_yet''\<rparr>,
       (prepopulated_session a t', e'))" for sid t' e'
    using gate_path_unqualified[of "(prepopulated_session a t', e')" "''whatsapp''" w sid]
      prepopulated_gate[of a t']
    by simp
  show ?thesis
    using assms
    by (simp add: handle_whatsapp_authorization_def try_except_def then_do_def now_def Let_def
          in_session_def g ret_def save_user_session_def)
qed

lemma end_session_stores:
  assumes "outcome_at w (tick e) = Succeeds" "outcome_at w (Suc (tick e)) = Succeeds"
    and "store e sid = Some sd"
  shows "end_session w sid e =
           (Inr ''ended'',
            advance ((advance e)\<lparr>store := (store e)(sid \<mapsto>
              sd\<lparr>session_ended := True, ended_at := Some (Suc (tick e)), current_step := ''ended''\<rparr>)\<rparr>))"
  using assms
  by (simp add: end_session_def try_except_def then_do_def get_user_session_def now_def
        save_user_session_def ret_def advance_def)

lemma landing_auth_fields:
  "user_data landing_auth \<noteq> []" "auth_source landing_auth = ''landing_chat''"
  "auth_session_id landing_auth = unseen_sender"
  by (simp_all add: landing_auth_def unseen_sender_def)

lemma after_landing_auth:
  "run_calls calm_world [Authorize landing_auth] initial_env =
     advance (initial_env\<lparr>store := (store initial_env)(unseen_sender \<mapsto>
                 prepopulated_session landing_auth 0)\<rparr>)"
  using authorization_stores[of landing_auth calm_world initial_env]
  by (simp add: run_calls_def landing_auth_fields) (simp add: initial_env_def)

lemma after_landing_auth_end:
  "store (run_calls calm_world [Authorize landing_auth, EndSession unseen_sender] initial_env)
     unseen_sender =
   Some ((prepopulated_session landing_auth 0)
           \<lparr>session_ended := True, ended_at := Some 2, current_step := ''ended''\<rparr>)"
proof -
  let ?e1 = "run_calls calm_world [Authorize landing_auth] initial_env"
  have s: "store ?e1 unseen_sender = Some (prepopulated_session landing_auth 0)"
    by (simp add: after_landing_auth advance_def)
  have t: "tick ?e1 = 1"
    unfolding after_landing_auth by (simp add: advance_def initial_env_def)
  have r: "run_calls calm_world [Authorize landing_auth, EndSession unseen_sender] initial_env
          = snd (end_session calm_world unseen_sender ?e1)"
    by (simp add: run_calls_def)
  have "end_session calm_world unseen_sender ?e1 =
           (Inr ''ended'',
            advance ((advance ?e1)\<lparr>store := (store ?e1)(unseen_sender \<mapsto>
              (prepopulated_session landing_auth 0)\<lparr>session_ended := True,
                 ended_at := Some (Suc (tick ?e1)), current_step := ''ended''\<rparr>)\<rparr>))"
    by (rule end_session_stores[OF _ _ s]) simp_all
  then show ?thesis
    unfolding r t by (simp add: advance_def)
qed


text \<open>
  C3. For every session record that the store holds after any sequence of calls to
  \<open>process_message\<close>, \<open>handle_whatsapp_authorization\<close> and \<open>end_session\<close>,
  started from the empty store and whatever the collaborators do: if the current step is
  \<open>completed\<close> then \<open>flow_completed\<close> is true; if \<open>flow_completed\<close> is true
  then the current step is \<open>completed\<close>, or it is \<open>ended\<close> and the record has
  \<open>session_ended\<close>; so on records that \<open>end_session\<close> has not closed,
  \<open>flow_completed\<close> is true if and only if the current step is \<open>completed\<close>.
\<close>

theorem completed_flag_invariant:
  "store (run_calls w calls initial_env) sid = Some sd \<Longrightarrow>
     (current_step sd = ''completed'' \<longrightarrow> flow_completed sd)
     \<and> (flow_completed sd \<longrightarrow>
          current_step sd = ''completed'' \<or> (current_step sd = ''ended'' \<and> session_ended sd))
     \<and> (\<not> session_ended sd \<longrightarrow> (flow_completed sd \<longleftrightarrow> current_step sd = ''completed''))"
  using run_calls_inv[OF initial_inv, of w calls]
  by (auto simp: store_inv_def step_consistent_def)

text \<open>An instance: the record stored by an authorization from the landing page.\<close>

theorem completed_flag_invariant_witness:
  "store (run_calls calm_world [Authorize landing_auth] initial_env) unseen_sender
     = Some (prepopulated_session landing_auth 0)
   \<and> current_step (prepopulated_session landing_auth 0) = ''completed''
   \<and> flow_completed (prepopulated_session landing_auth 0)"
proof -
  have s: "store (run_calls calm_world [Authorize landing_auth] initial_env) unseen_sender
     = Some (prepopulated_session landing_auth 0)"
    by (simp add: after_landing_auth advance_def)
  have c: "current_step (prepopulated_session landing_auth 0) = ''completed''"
    by (simp add: prepopulated_session_def)
  from completed_flag_invariant[OF s] have "flow_completed (prepopulated_session landing_auth 0)"
    using c by blast
  with s c show ?thesis by (intro conjI)
qed

text \<open>
  The equivalence itself does not hold of every reachable record: \<open>end_session\<close> on a
  completed session writes the step \<open>ended\<close> and leaves \<open>flow_completed\<close> true.
\<close>

theorem completed_flag_counterexample:
  "case store (run_calls calm_world [Authorize landing_auth, EndSession unseen_sender] initial_env)
          unseen_sender of
     None \<Rightarrow> False
   | Some sd \<Rightarrow> flow_completed sd \<and> current_step sd = ''ended''
                \<and> \<not> (flow_completed sd \<longleftrightarrow> current_step sd = ''completed'')"
  unfolding after_landing_auth_end by (simp add: prepopulated_session_def)

end
